theory Spec2Isabelle
  imports Main
begin

section \<open>The backend script API of Trilium: \<open>src/services/backend_script_api.js\<close>\<close>

text \<open>
  The source file defines one constructor, \<open>BackendScriptApi\<close>, whose methods are thin
  operations over the entity cache (\<open>becca\<close>) and a handful of services. Three methods
  carry logic of their own and are embedded here: \<open>createNote\<close> (lines 241-275),
  \<open>log\<close> (lines 287-306) and \<open>createOrUpdateLauncher\<close> (lines 464-521).

  Conventions of the embedding:
  \<^item> a JavaScript string is a \<open>string\<close>; one \<open>char\<close> stands for one code unit;
  \<^item> a property that may be \<open>undefined\<close> has an option type, \<open>None\<close> being \<open>undefined\<close>;
  \<^item> a thrown exception is the \<open>Inl\<close> of a sum; every \<open>throw\<close> of the source has its own
    constructor of \<open>error\<close>;
  \<^item> the entity cache and the database behind it are one record, \<open>becca\<close>, passed in and
    returned updated.
\<close>

subsection \<open>JavaScript values and truthiness\<close>

text \<open>
  The values a script can pass as note content or as a log message. Numbers are restricted
  to integers; an object is the list of its own properties in enumeration order. There are
  no functions or symbols, and an object is a finite tree: it cannot contain itself.
\<close>

datatype js_value =
    JUndefined
  | JNull
  | JBool bool
  | JNumber int
  | JBigInt int
  | JString string
  | JArray "js_value list"
  | JObject "(string \<times> js_value) list"

text \<open>\<open>ToBoolean\<close>: what \<open>!x\<close>, \<open>x || y\<close> and \<open>if (x)\<close> look at.\<close>

fun truthy :: "js_value \<Rightarrow> bool" where
  "truthy JUndefined = False"
| "truthy JNull = False"
| "truthy (JBool b) = b"
| "truthy (JNumber n) = (n \<noteq> 0)"
| "truthy (JBigInt n) = (n \<noteq> 0)"
| "truthy (JString s) = (s \<noteq> [])"
| "truthy (JArray xs) = True"
| "truthy (JObject ps) = True"

text \<open>The same for a property that holds a string or is missing.\<close>

fun truthy_str :: "string option \<Rightarrow> bool" where
  "truthy_str None = False"
| "truthy_str (Some s) = (s \<noteq> [])"

text \<open>
  \<open>String.prototype.trim\<close> removes white space and line terminators at both ends. Among
  the code units below 256 these are tab, line feed, vertical tab, form feed, carriage
  return, space and the no-break space.
\<close>

definition isWhiteSpace :: "char \<Rightarrow> bool" where
  "isWhiteSpace c = (of_char c \<in> {9, 10, 11, 12, 13, 32, 160 :: nat})"

definition trim :: "string \<Rightarrow> string" where
  "trim s = rev (dropWhile isWhiteSpace (rev (dropWhile isWhiteSpace s)))"

text \<open>
  The character class \<open>[a-z0-9]\<close> under the flag \<open>i\<close>: ASCII digits and ASCII letters of
  either case.
\<close>

definition isAlnum :: "char \<Rightarrow> bool" where
  "isAlnum c =
     (let n = (of_char c :: nat)
      in (48 \<le> n \<and> n \<le> 57) \<or> (65 \<le> n \<and> n \<le> 90) \<or> (97 \<le> n \<and> n \<le> 122))"

text \<open>
  \<open>id.match(/[a-z0-9]{6,1000}/i)\<close>, line 466. The pattern has no anchors, so the search
  tries every start position; at a position it succeeds when at least six characters of
  the class follow.
\<close>

fun matchIdPattern :: "string \<Rightarrow> bool" where
  "matchIdPattern [] = False"
| "matchIdPattern (c # cs) =
     (6 \<le> length (takeWhile isAlnum (c # cs)) \<or> matchIdPattern cs)"

subsection \<open>Errors\<close>

text \<open>
  One constructor for each \<open>throw\<close> of \<open>createOrUpdateLauncher\<close> (lines 465-472 and 505), one
  for the \<open>TypeError\<close> of reading a property of \<open>undefined\<close> (lines 248 and 290), one for
  the \<open>TypeError\<close> of calling what is not a function (lines 304 and 305), one for what
  \<open>JSON.stringify\<close> throws (line 252), and one for whatever a collaborator raises.
\<close>

datatype error =
    IdMandatory
  | IdNotAlphanumeric
  | TypeMandatory
  | GivenLauncherType string
  | TitleMandatory
  | TargetNoteIdMandatory
  | ScriptNoteIdMandatory
  | WidgetNoteIdMandatory
  | UnrecognizedLauncherType string
  | TypeError_undefined
  | TypeError_not_a_function
  | TypeError_stringify
  | CollaboratorError string

subsection \<open>Entities and the entity cache\<close>

record BNote =
  noteId :: string
  title :: string
  ntype :: string
  mime :: string
  content :: js_value

record BBranch =
  branchId :: string
  b_noteId :: string
  parentNoteId :: string
  prefix :: string

record BAttribute =
  attributeId :: string
  a_noteId :: string
  a_type :: string
  a_name :: string
  a_value :: "string option"
  isInheritable :: bool

text \<open>
  \<open>becca\<close>: the notes, the branches and the attributes in creation order, and the number of
  entity ids handed out so far. \<open>becca.notes\<close> is an index by \<open>noteId\<close>: the note of an id
  is the first one of the list that carries it.
\<close>

record becca =
  becca_notes :: "BNote list"
  branches :: "BBranch list"
  attributes :: "BAttribute list"
  nextId :: nat

subsection \<open>Collaborators\<close>

text \<open>
  The services and entity methods the three operations call live in other files of the
  repository. Each is modelled from what the specification says of it.
\<close>

text \<open>\<open>becca.getNote(noteId)\<close>: the entity lookup by id; \<open>undefined\<close> when there is none.\<close>

definition getNote :: "becca \<Rightarrow> string \<Rightarrow> BNote option" where
  "getNote s nid = find (\<lambda>n. noteId n = nid) (becca_notes s)"

text \<open>
  Modelled from the spec: \<open>utils.newEntityId\<close> is missing. Identities are stable strings;
  a new one is made from the counter of the cache.
\<close>

fun digitsOf :: "nat \<Rightarrow> string" where
  "digitsOf n =
     (if n < 10 then [''0123456789'' ! n]
      else digitsOf (n div 10) @ [''0123456789'' ! (n mod 10)])"

definition newEntityId :: "nat \<Rightarrow> string" where
  "newEntityId n = ''id'' @ digitsOf n"

text \<open>
  Modelled from the spec: \<open>BNote.save\<close> is missing. The note is persisted: it replaces the
  note of its id, or joins the cache when the id is new.
\<close>

definition save :: "BNote \<Rightarrow> becca \<Rightarrow> becca" where
  "save n s =
     (if list_ex (\<lambda>m. noteId m = noteId n) (becca_notes s)
      then s\<lparr>becca_notes := map (\<lambda>m. if noteId m = noteId n then n else m) (becca_notes s)\<rparr>
      else s\<lparr>becca_notes := becca_notes s @ [n]\<rparr>)"

text \<open>
  Modelled from the spec: \<open>specialNotesService.createLauncher\<close> is missing. "If no entity
  with that id exists, create it fresh under the container implied by visibility": a note
  of the reserved type with the given id, and its one branch under the given parent. The
  spec names no field that keeps \<open>launcherType\<close>, and no title of a fresh launcher.
\<close>

definition createLauncher :: "string \<Rightarrow> string \<Rightarrow> string \<Rightarrow> becca \<Rightarrow> BNote \<times> becca" where
  "createLauncher nid parentId launcherType s =
     (let n = \<lparr>noteId = nid, title = [], ntype = ''launcher'', mime = [], content = JString []\<rparr>;
          b = \<lparr>branchId = newEntityId (nextId s), b_noteId = nid, parentNoteId = parentId,
               prefix = []\<rparr>
      in (n, s\<lparr>becca_notes := becca_notes s @ [n], branches := branches s @ [b],
                nextId := Suc (nextId s)\<rparr>))"

text \<open>\<open>BNote.getParentBranches\<close>: the incoming branches of a note, its parent attachments.\<close>

definition getParentBranches :: "becca \<Rightarrow> string \<Rightarrow> BBranch list" where
  "getParentBranches s nid = filter (\<lambda>b. b_noteId b = nid) (branches s)"

text \<open>
  Modelled from the spec: \<open>branchService.moveBranchToNote\<close> is missing. "Move the branch
  to the desired parent (structural relocation, not create+delete)": the branch passed in
  keeps its identity and gets the new parent.
\<close>

definition moveBranchToNote :: "BBranch \<Rightarrow> string \<Rightarrow> becca \<Rightarrow> becca" where
  "moveBranchToNote branch parentId s =
     s\<lparr>branches := map (\<lambda>b. if b = branch then b\<lparr>parentNoteId := parentId\<rparr> else b) (branches s)\<rparr>"

text \<open>
  Modelled from the spec: \<open>BNote.setRelation\<close> and \<open>BNote.setLabel\<close> are missing. "Set the
  typed relation to the provided reference, overwriting any prior value"; "if a value is
  supplied, set it": the first attribute of the note with that type and name gets the
  value, and one is created when the note has none.
\<close>

fun overwriteFirst :: "(BAttribute \<Rightarrow> bool) \<Rightarrow> string option \<Rightarrow> BAttribute list \<Rightarrow> BAttribute list" where
  "overwriteFirst P v [] = []"
| "overwriteFirst P v (a # as) =
     (if P a then a\<lparr>a_value := v\<rparr> # as else a # overwriteFirst P v as)"

definition isAttr :: "string \<Rightarrow> string \<Rightarrow> string \<Rightarrow> BAttribute \<Rightarrow> bool" where
  "isAttr ty nid nm a = (a_noteId a = nid \<and> a_type a = ty \<and> a_name a = nm)"

definition setAttribute :: "string \<Rightarrow> string \<Rightarrow> string \<Rightarrow> string option \<Rightarrow> becca \<Rightarrow> becca" where
  "setAttribute ty nid nm v s =
     (if list_ex (isAttr ty nid nm) (attributes s)
      then s\<lparr>attributes := overwriteFirst (isAttr ty nid nm) v (attributes s)\<rparr>
      else s\<lparr>attributes := attributes s @
                [\<lparr>attributeId = newEntityId (nextId s), a_noteId = nid, a_type = ty, a_name = nm,
                  a_value = v, isInheritable = False\<rparr>],
              nextId := Suc (nextId s)\<rparr>)"

definition setRelation :: "string \<Rightarrow> string \<Rightarrow> string option \<Rightarrow> becca \<Rightarrow> becca" where
  "setRelation nid nm v s = setAttribute ''relation'' nid nm v s"

definition setLabel :: "string \<Rightarrow> string \<Rightarrow> string option \<Rightarrow> becca \<Rightarrow> becca" where
  "setLabel nid nm v s = setAttribute ''label'' nid nm v s"

text \<open>
  Modelled from the spec: \<open>BNote.removeLabel\<close> is missing. "If omitted, remove any existing
  label": every label of the note with that name goes.
\<close>

definition removeLabel :: "string \<Rightarrow> string \<Rightarrow> becca \<Rightarrow> becca" where
  "removeLabel nid nm s =
     s\<lparr>attributes := filter (\<lambda>a. \<not> isAttr ''label'' nid nm a) (attributes s)\<rparr>"

text \<open>
  Modelled from the spec: \<open>sql.transactional\<close> is missing. The TransactionRunner "executes
  a unit of work" as "one atomic unit": when the unit raises, the error goes on to the
  caller and nothing the unit did persists. The call modelled is the outermost one.
\<close>

definition transactional :: "(becca \<Rightarrow> error + ('a \<times> becca)) \<Rightarrow> becca \<Rightarrow> (error + 'a) \<times> becca" where
  "transactional func s =
     (case func s of Inl e \<Rightarrow> (Inl e, s) | Inr (r, s') \<Rightarrow> (Inr r, s'))"

subsection \<open>\<open>createOrUpdateLauncher\<close>, lines 464-521\<close>

record launcher_opts =
  o_id :: "string option"
  o_type :: "string option"
  o_title :: "string option"
  o_isVisible :: bool
  o_icon :: "string option"
  o_keyboardShortcut :: "string option"
  o_targetNoteId :: "string option"
  o_scriptNoteId :: "string option"
  o_widgetNoteId :: "string option"

text \<open>
  The body of the function is a sequence of blocks, each a definition here. Lines 477-483:
  the note of the id if the cache has one, a fresh launcher otherwise.
\<close>

definition findOrCreateLauncher :: "string \<Rightarrow> string \<Rightarrow> string \<Rightarrow> becca \<Rightarrow> BNote \<times> becca" where
  "findOrCreateLauncher nid parentId ty s =
     (case getNote s nid of
        Some n \<Rightarrow> (n, s)
      | None \<Rightarrow> createLauncher nid parentId ty s)"

text \<open>Lines 485-488: the title is written and the note saved only when it differs.\<close>

definition updateTitle :: "string \<Rightarrow> BNote \<Rightarrow> becca \<Rightarrow> BNote \<times> becca" where
  "updateTitle t launcherNote s =
     (if title launcherNote \<noteq> t
      then (launcherNote\<lparr>title := t\<rparr>, save (launcherNote\<lparr>title := t\<rparr>) s)
      else (launcherNote, s))"

text \<open>
  Lines 490-496: with exactly one parent branch, and that one under another parent, the
  branch is moved.
\<close>

definition updateParent :: "BNote \<Rightarrow> string \<Rightarrow> becca \<Rightarrow> becca" where
  "updateParent launcherNote parentId s =
     (case getParentBranches s (noteId launcherNote) of
        [branch] \<Rightarrow>
          if parentNoteId branch \<noteq> parentId then moveBranchToNote branch parentId s else s
      | _ \<Rightarrow> s)"

text \<open>Lines 498-506: the relation of the kind; the last branch throws.\<close>

definition updateRelation :: "string \<Rightarrow> BNote \<Rightarrow> launcher_opts \<Rightarrow> becca \<Rightarrow> error + becca" where
  "updateRelation ty launcherNote opts s =
     (if ty = ''note''
        then Inr (setRelation (noteId launcherNote) ''target'' (o_targetNoteId opts) s)
      else if ty = ''script''
        then Inr (setRelation (noteId launcherNote) ''script'' (o_scriptNoteId opts) s)
      else if ty = ''customWidget''
        then Inr (setRelation (noteId launcherNote) ''widget'' (o_widgetNoteId opts) s)
      else Inl (UnrecognizedLauncherType ty))"

text \<open>Lines 508-512: the shortcut label is set when a shortcut is given, removed otherwise.\<close>

definition updateKeyboardShortcut :: "BNote \<Rightarrow> launcher_opts \<Rightarrow> becca \<Rightarrow> becca" where
  "updateKeyboardShortcut launcherNote opts s =
     (if truthy_str (o_keyboardShortcut opts)
      then setLabel (noteId launcherNote) ''keyboardShortcut'' (o_keyboardShortcut opts) s
      else removeLabel (noteId launcherNote) ''keyboardShortcut'' s)"

text \<open>Lines 514-518: the same for the icon, whose label holds \<open>bx\<close>, a space and the icon.\<close>

definition updateIcon :: "BNote \<Rightarrow> launcher_opts \<Rightarrow> becca \<Rightarrow> becca" where
  "updateIcon launcherNote opts s =
     (case o_icon opts of
        None \<Rightarrow> removeLabel (noteId launcherNote) ''iconClass'' s
      | Some icon \<Rightarrow>
          if icon \<noteq> []
          then setLabel (noteId launcherNote) ''iconClass'' (Some (''bx '' @ icon)) s
          else removeLabel (noteId launcherNote) ''iconClass'' s)"

text \<open>
  Lines 474-520, for the id, type and title that passed the checks. The result is what
  the call returns or throws, together with the cache as the call leaves it: nothing
  rolls a thrown call back here.
\<close>

definition upsertLauncher ::
  "string \<Rightarrow> string \<Rightarrow> string \<Rightarrow> launcher_opts \<Rightarrow> becca \<Rightarrow> (error + BNote) \<times> becca" where
  "upsertLauncher oid ty t opts s =
     (let parentId = (if o_isVisible opts then ''_lbVisibleLaunchers'' else ''_lbAvailableLaunchers'');
          nid = ''al_'' @ oid;
          (found, s1) = findOrCreateLauncher nid parentId ty s;
          (launcherNote, s2) = updateTitle t found s1;
          s3 = updateParent launcherNote parentId s2
      in case updateRelation ty launcherNote opts s3 of
           Inl e \<Rightarrow> (Inl e, s3)
         | Inr s4 \<Rightarrow>
             (Inr launcherNote,
              updateIcon launcherNote opts (updateKeyboardShortcut launcherNote opts s4)))"

text \<open>
  The function: the eight checks of lines 465-472 in the order of the source, each
  throwing before anything is touched, then the body.
\<close>

definition createOrUpdateLauncher :: "launcher_opts \<Rightarrow> becca \<Rightarrow> (error + BNote) \<times> becca" where
  "createOrUpdateLauncher opts s =
    (case o_id opts of
       None \<Rightarrow> (Inl IdMandatory, s)
     | Some oid \<Rightarrow>
    if oid = [] then (Inl IdMandatory, s)
    else if \<not> matchIdPattern oid then (Inl IdNotAlphanumeric, s)
    else (case o_type opts of
       None \<Rightarrow> (Inl TypeMandatory, s)
     | Some ty \<Rightarrow>
    if ty = [] then (Inl TypeMandatory, s)
    else if ty \<notin> set [''note'', ''script'', ''customWidget''] then (Inl (GivenLauncherType ty), s)
    else (case o_title opts of
       None \<Rightarrow> (Inl TitleMandatory, s)
     | Some t \<Rightarrow>
    if trim t = [] then (Inl TitleMandatory, s)
    else if ty = ''note'' \<and> \<not> truthy_str (o_targetNoteId opts) then (Inl TargetNoteIdMandatory, s)
    else if ty = ''script'' \<and> \<not> truthy_str (o_scriptNoteId opts) then (Inl ScriptNoteIdMandatory, s)
    else if ty = ''customWidget'' \<and> \<not> truthy_str (o_widgetNoteId opts)
      then (Inl WidgetNoteIdMandatory, s)
    else upsertLauncher oid ty t opts s)))"

text \<open>
  The checks of lines 465-472 seen from outside: \<open>checksPass opts oid ty t\<close> says that
  \<open>opts\<close> gets through them with the id, type and title \<open>oid\<close>, \<open>ty\<close> and \<open>t\<close>, and
  \<open>validationErrors\<close> are the errors they throw.
\<close>

definition validationErrors :: "error set" where
  "validationErrors = {IdMandatory, IdNotAlphanumeric, TypeMandatory, TitleMandatory,
      TargetNoteIdMandatory, ScriptNoteIdMandatory, WidgetNoteIdMandatory} \<union> range GivenLauncherType"

definition checksPass :: "launcher_opts \<Rightarrow> string \<Rightarrow> string \<Rightarrow> string \<Rightarrow> bool" where
  "checksPass opts oid ty t =
     (o_id opts = Some oid \<and> matchIdPattern oid \<and>
      o_type opts = Some ty \<and> ty \<in> set [''note'', ''script'', ''customWidget''] \<and>
      o_title opts = Some t \<and> trim t \<noteq> [] \<and>
      (if ty = ''note'' then truthy_str (o_targetNoteId opts)
       else if ty = ''script'' then truthy_str (o_scriptNoteId opts)
       else truthy_str (o_widgetNoteId opts)))"

subsection \<open>\<open>createNote\<close>, lines 241-275\<close>

text \<open>One element of \<open>extraOptions.attributes\<close>.\<close>

record attr_spec =
  at_type :: string
  at_name :: string
  at_value :: "string option"
  at_isInheritable :: js_value

text \<open>
  The caller's \<open>extraOptions\<close> object. The operation writes the first five fields and reads
  the last two; an \<open>attributes\<close> that is missing is \<open>None\<close>.
\<close>

record extraOptions =
  eo_parentNoteId :: "string option"
  eo_title :: "string option"
  eo_type :: "string option"
  eo_mime :: "string option"
  eo_content :: js_value
  eo_json :: js_value
  eo_attributes :: "attr_spec list option"

text \<open>The argument of \<open>attributeService.createAttribute\<close>, lines 264-270.\<close>

record attr_params =
  p_noteId :: string
  p_type :: string
  p_name :: string
  p_value :: "string option"
  p_isInheritable :: bool

text \<open>
  Modelled from the spec: \<open>noteService.createNewNote\<close> is missing. The builder "creates the
  note" and "its initial branch" from the parent, title, content, type and mime it is
  given. \<open>createNote\<close> always passes all five.
\<close>

definition createNewNote :: "extraOptions \<Rightarrow> becca \<Rightarrow> (BNote \<times> BBranch) \<times> becca" where
  "createNewNote params s =
     (let n = \<lparr>noteId = newEntityId (nextId s),
               title = (case eo_title params of None \<Rightarrow> [] | Some t \<Rightarrow> t),
               ntype = (case eo_type params of None \<Rightarrow> [] | Some ty \<Rightarrow> ty),
               mime = (case eo_mime params of None \<Rightarrow> [] | Some m \<Rightarrow> m),
               content = eo_content params\<rparr>;
          b = \<lparr>branchId = newEntityId (Suc (nextId s)), b_noteId = noteId n,
               parentNoteId = (case eo_parentNoteId params of None \<Rightarrow> [] | Some p \<Rightarrow> p),
               prefix = []\<rparr>
      in ((n, b), s\<lparr>becca_notes := becca_notes s @ [n], branches := branches s @ [b],
                     nextId := Suc (Suc (nextId s))\<rparr>))"

text \<open>
  The loop of lines 263-271. \<open>createAttribute\<close> is the attribute-creation capability of the
  collaborator: the spec gives no condition under which it fails, so it is a parameter
  here and may fail as it likes. The first failure ends the loop.
\<close>

fun createAttributes ::
  "(attr_params \<Rightarrow> becca \<Rightarrow> error + (BAttribute \<times> becca)) \<Rightarrow> string \<Rightarrow> attr_spec list \<Rightarrow> becca
     \<Rightarrow> error + becca" where
  "createAttributes createAttribute nid [] s = Inr s"
| "createAttributes createAttribute nid (attr # rest) s =
     (case createAttribute
             \<lparr>p_noteId = nid, p_type = at_type attr, p_name = at_name attr,
              p_value = at_value attr, p_isInheritable = truthy (at_isInheritable attr)\<rparr> s of
        Inl e \<Rightarrow> Inl e
      | Inr (a, s') \<Rightarrow> createAttributes createAttribute nid rest s')"

text \<open>
  Lines 248-258, given the parent note: the options as these lines leave them, and the
  error if they throw. \<open>JSON_stringify v indent\<close> is the built-in
  \<open>JSON.stringify(v, null, indent)\<close>, a parameter: it returns the text or throws (a cyclic
  structure, a BigInt). Lines 248-249 have written the type and the mime by then, and
  line 252 calls it before it assigns: when it throws, the content and the JSON type and
  mime are not written.
\<close>

definition resolveOptions ::
  "(js_value \<Rightarrow> string \<Rightarrow> error + string) \<Rightarrow> BNote \<Rightarrow> js_value \<Rightarrow> extraOptions
     \<Rightarrow> error option \<times> extraOptions" where
  "resolveOptions JSON_stringify parentNote content' extraOptions =
     (let eo = extraOptions
            \<lparr>eo_type := Some (if ntype parentNote = ''code'' then ''code'' else ''text''),
             eo_mime := Some (if ntype parentNote = ''code'' then mime parentNote else ''text/html'')\<rparr>
      in if truthy (eo_json eo)
         then (case JSON_stringify (if truthy content' then content' else JObject []) [CHR 0x09] of
                 Inl e \<Rightarrow> (Some e, eo)
               | Inr text \<Rightarrow>
                   (None, eo\<lparr>eo_content := JString text,
                             eo_type := Some ''code'',
                             eo_mime := Some ''application/json''\<rparr>))
         else (None, eo\<lparr>eo_content := content'\<rparr>))"

text \<open>
  The result is what the call returns or throws, the caller's \<open>extraOptions\<close> as the call
  leaves it, and the cache. A \<open>content\<close> that is \<open>undefined\<close> takes the default \<open>""\<close>.
  Reading \<open>parentNote.type\<close> of a missing parent (line 248) is the \<open>TypeError\<close>.
\<close>

definition createNote ::
  "(attr_params \<Rightarrow> becca \<Rightarrow> error + (BAttribute \<times> becca))
     \<Rightarrow> (js_value \<Rightarrow> string \<Rightarrow> error + string)
     \<Rightarrow> string \<Rightarrow> string \<Rightarrow> js_value \<Rightarrow> extraOptions \<Rightarrow> becca
     \<Rightarrow> (error + (BNote \<times> BBranch)) \<times> extraOptions \<times> becca" where
  "createNote createAttribute JSON_stringify parentId title' content' extraOptions s =
     (let content1 = (if content' = JUndefined then JString [] else content');
          eo1 = extraOptions\<lparr>eo_parentNoteId := Some parentId, eo_title := Some title'\<rparr>
      in case getNote s parentId of
           None \<Rightarrow> (Inl TypeError_undefined, eo1, s)
         | Some parentNote \<Rightarrow>
             (case resolveOptions JSON_stringify parentNote content1 eo1 of
                (Some e, eo2) \<Rightarrow> (Inl e, eo2, s)
              | (None, eo2) \<Rightarrow>
                  let (r, s') =
                        transactional
                          (\<lambda>s0. case createNewNote eo2 s0 of
                             ((note, branch), s1) \<Rightarrow>
                               (case createAttributes createAttribute (noteId note)
                                       (case eo_attributes eo2 of None \<Rightarrow> [] | Some as \<Rightarrow> as)
                                       s1 of
                                  Inl e \<Rightarrow> Inl e
                                | Inr s2 \<Rightarrow> Inr ((note, branch), s2))) s
                  in (r, eo2, s')))"

subsection \<open>\<open>log\<close>, lines 277-306\<close>

text \<open>
  Modelled from the spec: \<open>SpacedUpdate\<close> is missing. It is the debounce timer of a key,
  with its interval and the one bit of the state machine "Idle, Scheduled, Idle".
\<close>

record SpacedUpdate =
  updateInterval :: nat
  scheduled :: bool

text \<open>
  \<open>logMessages\<close> and \<open>logSpacedUpdates\<close> are plain objects (lines 277-278), so a lookup
  that finds no own property goes on to \<open>Object.prototype\<close>. A property holds a value that
  \<open>log\<close> put there (an array of messages, a timer) or a member of \<open>Object.prototype\<close>.
\<close>

datatype 'a property = Value 'a | PrototypeMember string

definition objectPrototypeMembers :: "string list" where
  "objectPrototypeMembers =
     [''constructor'', ''__defineGetter__'', ''__defineSetter__'', ''hasOwnProperty'',
      ''__lookupGetter__'', ''__lookupSetter__'', ''isPrototypeOf'', ''propertyIsEnumerable'',
      ''toString'', ''valueOf'', ''__proto__'', ''toLocaleString'']"

text \<open>\<open>obj[key]\<close>, read: the own property, or else the inherited member of that name.\<close>

definition getProperty :: "(string \<rightharpoonup> 'a property) \<Rightarrow> string \<Rightarrow> 'a property option" where
  "getProperty obj key =
     (case obj key of
        Some p \<Rightarrow> Some p
      | None \<Rightarrow> if key \<in> set objectPrototypeMembers then Some (PrototypeMember key) else None)"

text \<open>
  \<open>obj[key] = p\<close>: the own property is written. Under \<open>__proto__\<close> with no own property
  the inherited setter takes the assignment and no own property appears; lines 292-293
  assign there what they have just read, \<open>Object.prototype\<close> itself, which changes
  nothing.
\<close>

definition setProperty ::
  "(string \<rightharpoonup> 'a property) \<Rightarrow> string \<Rightarrow> 'a property \<Rightarrow> (string \<rightharpoonup> 'a property)" where
  "setProperty obj key p = (if key = ''__proto__'' \<and> obj key = None then obj else obj(key \<mapsto> p))"

text \<open>
  The argument of one \<open>ws.sendMessageToAllClients\<close> call, lines 297-301; \<open>messages\<close> is
  what line 294 read.
\<close>

record ws_message =
  m_type :: string
  m_noteId :: string
  m_messages :: "js_value list property option"

text \<open>
  The instance: the fields the constructor sets and \<open>log\<close> uses, the own properties of the
  two dictionaries, and what has gone out so far to the log file (\<open>log.info\<close>) and to the
  clients, one entry a call.
\<close>

record api =
  startNote :: "BNote option"
  currentNote :: "BNote option"
  logMessages :: "string \<rightharpoonup> js_value list property"
  logSpacedUpdates :: "string \<rightharpoonup> SpacedUpdate property"
  infoLog :: "js_value list"
  sentToAllClients :: "ws_message list"

text \<open>The constructor, lines 29-35 and 277-278.\<close>

definition BackendScriptApi :: "BNote option \<Rightarrow> BNote option \<Rightarrow> api" where
  "BackendScriptApi currentNote' apiParams_startNote =
     \<lparr>startNote = apiParams_startNote, currentNote = currentNote',
      logMessages = Map.empty, logSpacedUpdates = Map.empty,
      infoLog = [], sentToAllClients = []\<rparr>"

text \<open>
  Modelled from the spec: \<open>SpacedUpdate.scheduleUpdate\<close> is missing. "If no timer is
  currently scheduled for the key, start one and transition to Scheduled."
\<close>

definition scheduleUpdate :: "SpacedUpdate \<Rightarrow> SpacedUpdate" where
  "scheduleUpdate su = (if scheduled su then su else su\<lparr>scheduled := True\<rparr>)"

text \<open>
  The callback given to \<open>new SpacedUpdate\<close>, lines 293-302, for the \<open>noteId\<close> it closes
  over. Line 293 makes a callback only for an id under which the lookup finds nothing,
  which is never the name of a member of \<open>Object.prototype\<close>; for such an id the read of
  line 294 and the write of line 295 are those of an own property.
\<close>

definition updater :: "string \<Rightarrow> api \<Rightarrow> api" where
  "updater nid st =
     (let messages = logMessages st nid
      in st\<lparr>logMessages := (logMessages st)(nid \<mapsto> Value []),
             sentToAllClients := sentToAllClients st @
               [\<lparr>m_type = ''api-log-messages'', m_noteId = nid, m_messages = messages\<rparr>]\<rparr>)"

text \<open>
  \<open>log(message)\<close>. Line 288 writes to the log file. Line 290 throws when there is no start
  note. Lines 292 and 293 store what the lookup finds, or a new array and a new timer
  when it finds nothing. Line 304 throws when what line 292 found is a member of
  \<open>Object.prototype\<close>, which has no \<open>push\<close>; otherwise the array, an own property, gets the
  message. Line 305 throws in the same way when the timer is no timer, and schedules it
  otherwise.
\<close>

definition log :: "js_value \<Rightarrow> api \<Rightarrow> error option \<times> api" where
  "log message st =
     (let st1 = st\<lparr>infoLog := infoLog st @ [message]\<rparr>
      in case startNote st1 of
           None \<Rightarrow> (Some TypeError_undefined, st1)
         | Some sn \<Rightarrow>
             let nid = noteId sn;
                 pending = (case getProperty (logMessages st1) nid of
                              None \<Rightarrow> Value []
                            | Some p \<Rightarrow> p);
                 st2 = st1\<lparr>logMessages := setProperty (logMessages st1) nid pending\<rparr>;
                 timer = (case getProperty (logSpacedUpdates st2) nid of
                            None \<Rightarrow> Value \<lparr>updateInterval = 100, scheduled = False\<rparr>
                          | Some p \<Rightarrow> p);
                 st3 = st2\<lparr>logSpacedUpdates := setProperty (logSpacedUpdates st2) nid timer\<rparr>
             in case pending of
                  PrototypeMember m \<Rightarrow> (Some TypeError_not_a_function, st3)
                | Value ms \<Rightarrow>
                    let st4 = st3\<lparr>logMessages := (logMessages st3)(nid \<mapsto> Value (ms @ [message]))\<rparr>
                    in case timer of
                         PrototypeMember m \<Rightarrow> (Some TypeError_not_a_function, st4)
                       | Value su \<Rightarrow>
                           (None,
                            st4\<lparr>logSpacedUpdates :=
                                  (logSpacedUpdates st4)(nid \<mapsto> Value (scheduleUpdate su))\<rparr>))"

text \<open>
  Modelled from the spec: the firing of the timer of a key. A timer that is scheduled goes
  back to Idle and runs its callback; there is nothing to fire otherwise.
\<close>

definition timerFires :: "string \<Rightarrow> api \<Rightarrow> api" where
  "timerFires key st =
     (case logSpacedUpdates st key of
        Some (Value su) \<Rightarrow>
          if scheduled su
          then updater key
                 (st\<lparr>logSpacedUpdates := (logSpacedUpdates st)(key \<mapsto> Value (su\<lparr>scheduled := False\<rparr>))\<rparr>)
          else st
      | _ \<Rightarrow> st)"

text \<open>What happens to an instance: a script calls \<open>log\<close>, or the timer of a key fires.\<close>

datatype event = Log js_value | Fire string

fun step :: "api \<Rightarrow> event \<Rightarrow> api" where
  "step st (Log message) = snd (log message st)"
| "step st (Fire key) = timerFires key st"

definition run :: "api \<Rightarrow> event list \<Rightarrow> api" where
  "run st evs = foldl step st evs"

text \<open>
  Three properties of an instance that every event keeps: the pending messages, the
  timers and the messages sent all belong to the id of the start note; a timer that is
  scheduled has messages pending; and no timer sits under the name of a member of
  \<open>Object.prototype\<close>.
\<close>

definition singleKey :: "api \<Rightarrow> bool" where
  "singleKey st =
     (dom (logMessages st) \<subseteq> noteId ` set_option (startNote st) \<and>
      dom (logSpacedUpdates st) \<subseteq> noteId ` set_option (startNote st) \<and>
      m_noteId ` set (sentToAllClients st) \<subseteq> noteId ` set_option (startNote st))"

definition pendingWhenScheduled :: "api \<Rightarrow> bool" where
  "pendingWhenScheduled st =
     (\<forall>key su. logSpacedUpdates st key = Some (Value su) \<and> scheduled su \<longrightarrow>
        (\<exists>ms. logMessages st key = Some (Value ms) \<and> ms \<noteq> []))"

definition timersOffPrototype :: "api \<Rightarrow> bool" where
  "timersOffPrototype st =
     (\<forall>key su. logSpacedUpdates st key = Some (Value su) \<longrightarrow> key \<notin> set objectPrototypeMembers)"

subsection \<open>Values to try the operations on\<close>

text \<open>An empty cache, and one with a text note and a code note.\<close>

definition emptyBecca :: becca where
  "emptyBecca = \<lparr>becca_notes = [], branches = [], attributes = [], nextId = 0\<rparr>"

definition sampleBecca :: becca where
  "sampleBecca =
     \<lparr>becca_notes =
        [\<lparr>noteId = ''root'', title = ''root'', ntype = ''text'', mime = ''text/html'',
          content = JString []\<rparr>,
         \<lparr>noteId = ''scripts'', title = ''Scripts'', ntype = ''code'',
          mime = ''application/javascript;env=backend'', content = JString []\<rparr>],
      branches =
        [\<lparr>branchId = ''root_scripts'', b_noteId = ''scripts'', parentNoteId = ''root'',
          prefix = []\<rparr>],
      attributes = [],
      nextId = 0\<rparr>"

text \<open>The \<open>extraOptions\<close> of a call that gives none: the default \<open>{}\<close>.\<close>

definition noOptions :: extraOptions where
  "noOptions = \<lparr>eo_parentNoteId = None, eo_title = None, eo_type = None, eo_mime = None,
                 eo_content = JUndefined, eo_json = JUndefined, eo_attributes = None\<rparr>"

text \<open>
  A stand-in for \<open>JSON.stringify\<close>, to try \<open>createNote\<close> on the empty object and the empty
  array, where it gives what the built-in gives, and on a BigInt, where it throws as the
  built-in does. It is not the built-in on other values.
\<close>

fun stringifySample :: "js_value \<Rightarrow> string \<Rightarrow> error + string" where
  "stringifySample (JBigInt n) indent = Inl TypeError_stringify"
| "stringifySample (JArray xs) indent = Inr ''[]''"
| "stringifySample v indent = Inr ''{}''"

text \<open>
  An attribute-creation capability: an attribute "has type (label | relation)", so this
  one refuses any other type and creates the attribute otherwise.
\<close>

definition createLabelOrRelation :: "attr_params \<Rightarrow> becca \<Rightarrow> error + (BAttribute \<times> becca)" where
  "createLabelOrRelation p s =
     (if p_type p \<notin> set [''label'', ''relation'']
      then Inl (CollaboratorError ''Invalid attribute type'')
      else
        let a = \<lparr>attributeId = newEntityId (nextId s), a_noteId = p_noteId p, a_type = p_type p,
                 a_name = p_name p, a_value = p_value p, isInheritable = p_isInheritable p\<rparr>
        in Inr (a, s\<lparr>attributes := attributes s @ [a], nextId := Suc (nextId s)\<rparr>))"

text \<open>
  The options of a script launcher, and a cache that already has a launcher of its id,
  under the container of the available launchers.
\<close>

definition sampleLauncher :: launcher_opts where
  "sampleLauncher =
     \<lparr>o_id = Some ''clock1'', o_type = Some ''script'', o_title = Some ''Clock'',
      o_isVisible = True, o_icon = Some ''bx-time'', o_keyboardShortcut = Some ''ctrl+e'',
      o_targetNoteId = None, o_scriptNoteId = Some ''scripts'', o_widgetNoteId = None\<rparr>"

definition launcherBecca :: becca where
  "launcherBecca =
     sampleBecca
       \<lparr>becca_notes := becca_notes sampleBecca @
          [\<lparr>noteId = ''al_clock1'', title = ''Old clock'', ntype = ''launcher'', mime = [],
            content = JString []\<rparr>],
        branches := branches sampleBecca @
          [\<lparr>branchId = ''available_clock1'', b_noteId = ''al_clock1'',
            parentNoteId = ''_lbAvailableLaunchers'', prefix = []\<rparr>]\<rparr>"

section \<open>Properties\<close>

declare digitsOf.simps [simp del]

subsection \<open>Validation in \<open>createOrUpdateLauncher\<close>\<close>

text \<open>
  Every check of lines 465-472 that fails returns its error and leaves the cache as it
  was: an id that is missing or empty, or has no six characters of the class in a row; a
  type that is missing, empty or unknown; a title that is missing or blank; a missing or
  empty reference of the kind. An \<open>opts\<close> that gets through all of them runs the body.
\<close>

lemma validation_id_missing:
  "\<not> truthy_str (o_id opts) \<Longrightarrow> createOrUpdateLauncher opts s = (Inl IdMandatory, s)"
  by (cases "o_id opts") (simp_all add: createOrUpdateLauncher_def)

lemma validation_id_pattern:
  "o_id opts = Some oid \<Longrightarrow> oid \<noteq> [] \<Longrightarrow> \<not> matchIdPattern oid
     \<Longrightarrow> createOrUpdateLauncher opts s = (Inl IdNotAlphanumeric, s)"
  by (simp add: createOrUpdateLauncher_def)

lemma matchIdPattern_length: "matchIdPattern cs \<Longrightarrow> 6 \<le> length cs"
proof (induction cs)
  case Nil
  then show ?case by simp
next
  case (Cons c cs)
  from Cons.prems
  have "6 \<le> length (takeWhile isAlnum (c # cs)) \<or> matchIdPattern cs"
    by (simp only: matchIdPattern.simps)
  then show ?case
  proof
    assume "6 \<le> length (takeWhile isAlnum (c # cs))"
    moreover have "length (takeWhile isAlnum (c # cs)) \<le> length (c # cs)"
      by (rule length_takeWhile_le)
    ultimately show ?thesis by (rule order_trans)
  next
    assume "matchIdPattern cs"
    then have "6 \<le> length cs" by (rule Cons.IH)
    then show ?thesis by (simp only: list.size)
  qed
qed

lemma validation_short_id:
  assumes "o_id opts = Some oid" and "oid \<noteq> []" and "length oid < 6"
  shows "createOrUpdateLauncher opts s = (Inl IdNotAlphanumeric, s)"
proof -
  have "\<not> matchIdPattern oid"
    using matchIdPattern_length [of oid] assms(3) by linarith
  with assms(1,2) show ?thesis
    by (simp add: createOrUpdateLauncher_def)
qed

lemma createOrUpdateLauncher_valid:
  assumes "checksPass opts oid ty t"
  shows "createOrUpdateLauncher opts s = upsertLauncher oid ty t opts s"
proof -
  from assms have "oid \<noteq> []" by (auto simp: checksPass_def)
  moreover from assms have "ty \<noteq> []" by (auto simp: checksPass_def)
  ultimately show ?thesis using assms
    by (auto simp: createOrUpdateLauncher_def checksPass_def)
qed

lemma createOrUpdateLauncher_invalid:
  assumes "\<And>oid ty t. \<not> checksPass opts oid ty t"
  shows "\<exists>e\<in>validationErrors. createOrUpdateLauncher opts s = (Inl e, s)"
proof (cases "o_id opts")
  case None
  then show ?thesis by (simp add: createOrUpdateLauncher_def validationErrors_def)
next
  case id: (Some oid)
  show ?thesis
  proof (cases "oid = [] \<or> \<not> matchIdPattern oid")
    case True
    with id show ?thesis by (auto simp: createOrUpdateLauncher_def validationErrors_def)
  next
    case idok: False
    show ?thesis
    proof (cases "o_type opts")
      case None
      with id idok show ?thesis by (simp add: createOrUpdateLauncher_def validationErrors_def)
    next
      case ty: (Some ty)
      show ?thesis
      proof (cases "ty = [] \<or> ty \<notin> set [''note'', ''script'', ''customWidget'']")
        case True
        with id idok ty show ?thesis
          by (auto simp: createOrUpdateLauncher_def validationErrors_def)
      next
        case tyok: False
        show ?thesis
        proof (cases "o_title opts")
          case None
          with id idok ty tyok show ?thesis
            by (simp add: createOrUpdateLauncher_def validationErrors_def)
        next
          case t: (Some t)
          show ?thesis
          proof (cases "trim t = []")
            case True
            with id idok ty tyok t show ?thesis
              by (simp add: createOrUpdateLauncher_def validationErrors_def)
          next
            case tok: False
            from assms [of oid ty t] id idok ty tyok t tok
            have "\<not> (if ty = ''note'' then truthy_str (o_targetNoteId opts)
                     else if ty = ''script'' then truthy_str (o_scriptNoteId opts)
                     else truthy_str (o_widgetNoteId opts))"
              by (auto simp: checksPass_def)
            with id idok ty tyok t tok show ?thesis
              by (auto simp: createOrUpdateLauncher_def validationErrors_def split: if_splits)
          qed
        qed
      qed
    qed
  qed
qed

lemma upsertLauncher_error:
  "fst (upsertLauncher oid ty t opts s) = Inl e \<Longrightarrow> e = UnrecognizedLauncherType ty"
  by (auto simp: upsertLauncher_def updateRelation_def Let_def split: prod.splits sum.splits if_splits)

text \<open>
  C3. The claim: every \<open>opts\<close> whose id is not an alphanumeric string of at least six
  characters is refused with a validation error, before anything is created. The pattern
  of line 466 has no anchors, so it accepts any id that contains six alphanumeric
  characters in a row. The id \<open>abcdef!\<close> is not alphanumeric; the call with it throws
  nothing and creates the note \<open>al_abcdef!\<close>, its branch and its relation.
\<close>

theorem createOrUpdateLauncher_accepts_non_alphanumeric_id:
  "\<not> list_all isAlnum ''abcdef!'' \<and>
   createOrUpdateLauncher
     \<lparr>o_id = Some ''abcdef!'', o_type = Some ''note'', o_title = Some ''T'', o_isVisible = False,
      o_icon = None, o_keyboardShortcut = None, o_targetNoteId = Some ''root'',
      o_scriptNoteId = None, o_widgetNoteId = None\<rparr> emptyBecca
   = (Inr \<lparr>noteId = ''al_abcdef!'', title = ''T'', ntype = ''launcher'', mime = [],
           content = JString []\<rparr>,
      \<lparr>becca_notes = [\<lparr>noteId = ''al_abcdef!'', title = ''T'', ntype = ''launcher'', mime = [],
                        content = JString []\<rparr>],
       branches = [\<lparr>branchId = ''id0'', b_noteId = ''al_abcdef!'',
                    parentNoteId = ''_lbAvailableLaunchers'', prefix = []\<rparr>],
       attributes = [\<lparr>attributeId = ''id1'', a_noteId = ''al_abcdef!'', a_type = ''relation'',
                      a_name = ''target'', a_value = Some ''root'', isInheritable = False\<rparr>],
       nextId = 2\<rparr>)"
  by code_simp

subsection \<open>\<open>createNote\<close>\<close>

text \<open>The call when the parent is in the cache: lines 248-274.\<close>

lemma createNote_found:
  assumes "getNote s parentId = Some parentNote"
  shows "createNote createAttribute JSON_stringify parentId title' content' extraOptions s =
     (case resolveOptions JSON_stringify parentNote
             (if content' = JUndefined then JString [] else content')
             (extraOptions\<lparr>eo_parentNoteId := Some parentId, eo_title := Some title'\<rparr>) of
        (Some e, eo2) \<Rightarrow> (Inl e, eo2, s)
      | (None, eo2) \<Rightarrow>
          let (r, s') =
                transactional
                  (\<lambda>s0. case createNewNote eo2 s0 of
                     ((note, branch), s1) \<Rightarrow>
                       (case createAttributes createAttribute (noteId note)
                               (case eo_attributes eo2 of None \<Rightarrow> [] | Some as \<Rightarrow> as) s1 of
                          Inl e \<Rightarrow> Inl e
                        | Inr s2 \<Rightarrow> Inr ((note, branch), s2))) s
          in (r, eo2, s'))"
  using assms by (simp add: createNote_def Let_def)

lemma truthy_default: "truthy (if c = JUndefined then JString [] else c) = truthy c"
  by (cases c) simp_all

lemma content_default:
  "(if truthy (if c = JUndefined then JString [] else c)
    then (if c = JUndefined then JString [] else c) else JObject []) =
   (if truthy c then c else JObject [])"
  by (cases c) simp_all

lemma resolveOptions_resolved:
  assumes "resolveOptions js p c eo = (None, eo2)"
  shows "eo_type eo2 =
           Some (if truthy (eo_json eo) then ''code''
                 else if ntype p = ''code'' then ''code'' else ''text'')"
    and "eo_mime eo2 =
           Some (if truthy (eo_json eo) then ''application/json''
                 else if ntype p = ''code'' then mime p else ''text/html'')"
    and "if truthy (eo_json eo)
         then \<exists>text. js (if truthy c then c else JObject []) [CHR 0x09] = Inr text \<and>
                     eo_content eo2 = JString text
         else eo_content eo2 = c"
    and "eo_parentNoteId eo2 = eo_parentNoteId eo"
    and "eo_title eo2 = eo_title eo"
    and "eo_json eo2 = eo_json eo"
    and "eo_attributes eo2 = eo_attributes eo"
  using assms by (auto simp: resolveOptions_def Let_def split: if_splits sum.splits)

lemma createNewNote_note:
  "createNewNote params s = ((n, b), s') \<Longrightarrow>
     Some (title n) = (case eo_title params of None \<Rightarrow> Some [] | x \<Rightarrow> x) \<and> 
     ntype n = (case eo_type params of None \<Rightarrow> [] | Some ty \<Rightarrow> ty) \<and>
     mime n = (case eo_mime params of None \<Rightarrow> [] | Some m \<Rightarrow> m) \<and>
     content n = eo_content params \<and> b_noteId b = noteId n \<and>
     parentNoteId b = (case eo_parentNoteId params of None \<Rightarrow> [] | Some p \<Rightarrow> p)"
  by (auto simp: createNewNote_def Let_def split: option.splits)

text \<open>A call that throws, wherever it throws, leaves the cache as it was.\<close>

lemma createNote_failure:
  assumes "fst (createNote createAttribute JSON_stringify parentId title' content' extraOptions s) =
             Inl e"
  shows "snd (snd (createNote createAttribute JSON_stringify parentId title' content' extraOptions s)) =
           s"
proof (cases "getNote s parentId")
  case None
  then show ?thesis
    by (simp add: createNote_def Let_def)
next
  case (Some parentNote)
  from assms show ?thesis
    unfolding createNote_found [OF Some]
    by (auto simp: Let_def transactional_def split: prod.splits option.splits sum.splits)
qed

text \<open>
  C7. The claim: when \<open>parentNoteId\<close> does not resolve, the call fails with a
  ValidationError. The code has no check of the parent: the error of the call is the
  \<open>TypeError\<close> of reading \<open>type\<close> of \<open>undefined\<close> at line 248, which is none of the errors a
  validation throws.
\<close>

theorem createNote_missing_parent_counterexample:
  "getNote sampleBecca ''gone'' = None \<and>
   fst (createNote createLabelOrRelation stringifySample ''gone'' ''T'' (JString ''hello'')
          noOptions sampleBecca) = Inl TypeError_undefined \<and>
   TypeError_undefined \<notin> validationErrors"
proof -
  have "getNote sampleBecca ''gone'' = None"
    by code_simp
  moreover have "fst (createNote createLabelOrRelation stringifySample ''gone'' ''T''
                        (JString ''hello'') noOptions sampleBecca) = Inl TypeError_undefined"
    by code_simp
  moreover have "TypeError_undefined \<notin> validationErrors"
    by (auto simp: validationErrors_def)
  ultimately show ?thesis
    by simp
qed

text \<open>
  C7, amended. When \<open>parentNoteId\<close> resolves to no note, \<open>createNote\<close> throws at once the
  \<open>TypeError\<close> of reading \<open>type\<close> of the missing parent at line 248, which is not a validation
  error; the cache is untouched, so no note, branch or attribute has been created. Only
  the first two writes to \<open>extraOptions\<close> have happened.
\<close>

theorem createNote_missing_parent:
  assumes "getNote s parentId = None"
  shows "createNote createAttribute JSON_stringify parentId title' content' extraOptions s =
           (Inl TypeError_undefined,
            extraOptions\<lparr>eo_parentNoteId := Some parentId, eo_title := Some title'\<rparr>, s) \<and>
         TypeError_undefined \<notin> validationErrors"
  using assms by (auto simp: createNote_def Let_def validationErrors_def)

theorem createNote_missing_parent_witness:
  "getNote sampleBecca ''gone'' = None \<and>
   createNote createLabelOrRelation stringifySample ''gone'' ''T'' (JString ''hello'')
     noOptions sampleBecca =
     (Inl TypeError_undefined,
      noOptions\<lparr>eo_parentNoteId := Some ''gone'', eo_title := Some ''T''\<rparr>, sampleBecca)"
proof -
  have missing: "getNote sampleBecca ''gone'' = None"
    by code_simp
  from createNote_missing_parent [OF missing] missing show ?thesis
    by simp
qed

text \<open>
  C6. The note that \<open>createNote\<close> creates: when JSON is asked for, it has type \<open>code\<close>, mime
  \<open>application/json\<close> and as content the serialization of the content given (of \<open>{}\<close> when
  the content is falsy) with a tab as indentation; otherwise it has the content given and,
  under a parent of type \<open>code\<close>, type \<open>code\<close> and the mime of the parent, under any other
  parent type \<open>text\<close> and mime \<open>text/html\<close>.
\<close>

theorem createNote_type_mime:
  assumes parent: "getNote s parentId = Some parentNote"
    and created: "createNote createAttribute JSON_stringify parentId title' content' extraOptions s =
                    (Inr (note, branch), extraOptions', s')"
  shows "if truthy (eo_json extraOptions)
         then ntype note = ''code'' \<and> mime note = ''application/json'' \<and>
              (\<exists>text. JSON_stringify (if truthy content' then content' else JObject []) [CHR 0x09] =
                        Inr text \<and>
                      content note = JString text)
         else if ntype parentNote = ''code''
         then ntype note = ''code'' \<and> mime note = mime parentNote \<and>
              content note = (if content' = JUndefined then JString [] else content')
         else ntype note = ''text'' \<and> mime note = ''text/html'' \<and>
              content note = (if content' = JUndefined then JString [] else content')"
proof -
  define c1 where "c1 = (if content' = JUndefined then JString [] else content')"
  define eo1 where "eo1 = extraOptions\<lparr>eo_parentNoteId := Some parentId, eo_title := Some title'\<rparr>"
  obtain err eo2 where res: "resolveOptions JSON_stringify parentNote c1 eo1 = (err, eo2)"
    by (cases "resolveOptions JSON_stringify parentNote c1 eo1") blast
  from created res have ok: "err = None"
    unfolding createNote_found [OF parent] c1_def [symmetric] eo1_def [symmetric]
    by (cases err) simp_all
  obtain n b s1 where new: "createNewNote eo2 s = ((n, b), s1)"
    by (metis prod.exhaust)
  from created res ok new have "note = n"
    unfolding createNote_found [OF parent] c1_def [symmetric] eo1_def [symmetric]
    by (auto simp: Let_def transactional_def split: sum.splits prod.splits)
  with createNewNote_note [OF new]
  have fields: "ntype note = (case eo_type eo2 of None \<Rightarrow> [] | Some ty \<Rightarrow> ty)"
    "mime note = (case eo_mime eo2 of None \<Rightarrow> [] | Some m \<Rightarrow> m)"
    "content note = eo_content eo2"
    by simp_all
  have json: "eo_json eo1 = eo_json extraOptions"
    by (simp add: eo1_def)
  note r = resolveOptions_resolved(1-3) [OF res [unfolded ok], unfolded json]
  from r(3) have content:
    "if truthy (eo_json extraOptions)
     then \<exists>text. JSON_stringify (if truthy content' then content' else JObject []) [CHR 0x09] =
                   Inr text \<and> eo_content eo2 = JString text
     else eo_content eo2 = (if content' = JUndefined then JString [] else content')"
    by (cases "content' = JUndefined") (auto simp: c1_def)
  from fields r(1,2) content show ?thesis
    by (simp split: if_splits)
qed


theorem createNote_type_mime_witness:
  "getNote sampleBecca ''scripts'' =
     Some \<lparr>noteId = ''scripts'', title = ''Scripts'', ntype = ''code'',
           mime = ''application/javascript;env=backend'', content = JString []\<rparr> \<and>
   fst (createNote createLabelOrRelation stringifySample ''scripts'' ''T'' (JString ''hello'')
          noOptions sampleBecca) =
     Inr (\<lparr>noteId = ''id0'', title = ''T'', ntype = ''code'',
            mime = ''application/javascript;env=backend'', content = JString ''hello''\<rparr>,
          \<lparr>branchId = ''id1'', b_noteId = ''id0'', parentNoteId = ''scripts'', prefix = []\<rparr>) \<and>
   fst (createNote createLabelOrRelation stringifySample ''scripts'' ''T'' (JObject [])
          (noOptions\<lparr>eo_json := JBool True\<rparr>) sampleBecca) =
     Inr (\<lparr>noteId = ''id0'', title = ''T'', ntype = ''code'',
            mime = ''application/json'', content = JString ''{}''\<rparr>,
          \<lparr>branchId = ''id1'', b_noteId = ''id0'', parentNoteId = ''scripts'', prefix = []\<rparr>)"
proof -
  let ?p = "\<lparr>noteId = ''scripts'', title = ''Scripts'', ntype = ''code'',
             mime = ''application/javascript;env=backend'', content = JString []\<rparr>"
  let ?call1 = "createNote createLabelOrRelation stringifySample ''scripts'' ''T''
                  (JString ''hello'') noOptions sampleBecca"
  let ?call2 = "createNote createLabelOrRelation stringifySample ''scripts'' ''T''
                  (JObject []) (noOptions\<lparr>eo_json := JBool True\<rparr>) sampleBecca"
  have parent: "getNote sampleBecca ''scripts'' = Some ?p"
    by code_simp
  have r1: "fst ?call1 =
     Inr (\<lparr>noteId = ''id0'', title = ''T'', ntype = ''code'',
            mime = ''application/javascript;env=backend'', content = JString ''hello''\<rparr>,
          \<lparr>branchId = ''id1'', b_noteId = ''id0'', parentNoteId = ''scripts'', prefix = []\<rparr>)"
    by code_simp
  have r2: "fst ?call2 =
     Inr (\<lparr>noteId = ''id0'', title = ''T'', ntype = ''code'',
            mime = ''application/json'', content = JString ''{}''\<rparr>,
          \<lparr>branchId = ''id1'', b_noteId = ''id0'', parentNoteId = ''scripts'', prefix = []\<rparr>)"
    by code_simp
  have c1: "?call1 = (fst ?call1, fst (snd ?call1), snd (snd ?call1))"
    by simp
  have c2: "?call2 = (fst ?call2, fst (snd ?call2), snd (snd ?call2))"
    by simp
  note t1 = createNote_type_mime [OF parent c1 [unfolded r1]]
  note t2 = createNote_type_mime [OF parent c2 [unfolded r2]]
  from parent r1 r2 t1 t2 show ?thesis
    by simp
qed

text \<open>
  C9. The claim: every call writes \<open>parentNoteId\<close>, \<open>title\<close>, \<open>type\<close>, \<open>mime\<close> and \<open>content\<close>
  onto the caller's \<open>extraOptions\<close>, which therefore differs after the call. Three calls
  show otherwise. With a parent that does not resolve, the call throws at line 248 after
  the first two writes: \<open>type\<close>, \<open>mime\<close> and \<open>content\<close> stay as they were. An object that
  already holds the five values is the same after the call. And when JSON is asked for
  and \<open>JSON.stringify\<close> throws, the type and mime are those of lines 248-249 and the content
  is not written.
\<close>

theorem createNote_extraOptions_counterexample:
  "fst (snd (createNote createLabelOrRelation stringifySample ''gone'' ''T'' (JString ''hello'')
               noOptions sampleBecca)) =
     noOptions\<lparr>eo_parentNoteId := Some ''gone'', eo_title := Some ''T''\<rparr> \<and>
   eo_type (fst (snd (createNote createLabelOrRelation stringifySample ''gone'' ''T''
                        (JString ''hello'') noOptions sampleBecca))) = None \<and>
   fst (snd (createNote createLabelOrRelation stringifySample ''root'' ''T'' (JString ''hello'')
               \<lparr>eo_parentNoteId = Some ''root'', eo_title = Some ''T'', eo_type = Some ''text'',
                eo_mime = Some ''text/html'', eo_content = JString ''hello'', eo_json = JUndefined,
                eo_attributes = None\<rparr> sampleBecca)) =
     \<lparr>eo_parentNoteId = Some ''root'', eo_title = Some ''T'', eo_type = Some ''text'',
      eo_mime = Some ''text/html'', eo_content = JString ''hello'', eo_json = JUndefined,
      eo_attributes = None\<rparr> \<and>
   createNote createLabelOrRelation stringifySample ''root'' ''T'' (JBigInt 1)
     (noOptions\<lparr>eo_json := JBool True\<rparr>) sampleBecca =
     (Inl TypeError_stringify,
      \<lparr>eo_parentNoteId = Some ''root'', eo_title = Some ''T'', eo_type = Some ''text'',
       eo_mime = Some ''text/html'', eo_content = JUndefined, eo_json = JBool True,
       eo_attributes = None\<rparr>,
      sampleBecca)"
  by code_simp

text \<open>
  C9, amended. What the call leaves in the caller's \<open>extraOptions\<close>, for every call: the
  object of before with the fields overwritten that the call assigned before it returned
  or threw, and no other field changed. These are \<open>parentNoteId\<close> and \<open>title\<close> when the
  parent does not resolve; these two and the type and mime taken from the parent when JSON
  is asked for and \<open>JSON.stringify\<close> throws; and otherwise all five of \<open>parentNoteId\<close>,
  \<open>title\<close>, \<open>type\<close>, \<open>mime\<close> and \<open>content\<close>, with the values the operation computes, whether or
  not the transaction then succeeds.
\<close>

theorem createNote_writes_extraOptions:
  "fst (snd (createNote createAttribute JSON_stringify parentId title' content' extraOptions s)) =
     (case getNote s parentId of
        None \<Rightarrow> extraOptions\<lparr>eo_parentNoteId := Some parentId, eo_title := Some title'\<rparr>
      | Some parentNote \<Rightarrow>
          if truthy (eo_json extraOptions)
          then (case JSON_stringify (if truthy content' then content' else JObject [])
                       [CHR 0x09] of
                  Inl e \<Rightarrow>
                    extraOptions
                      \<lparr>eo_parentNoteId := Some parentId,
                       eo_title := Some title',
                       eo_type := Some (if ntype parentNote = ''code'' then ''code'' else ''text''),
                       eo_mime := Some (if ntype parentNote = ''code'' then mime parentNote
                                        else ''text/html'')\<rparr>
                | Inr text \<Rightarrow>
                    extraOptions
                      \<lparr>eo_parentNoteId := Some parentId,
                       eo_title := Some title',
                       eo_type := Some ''code'',
                       eo_mime := Some ''application/json'',
                       eo_content := JString text\<rparr>)
          else extraOptions
                 \<lparr>eo_parentNoteId := Some parentId,
                  eo_title := Some title',
                  eo_type := Some (if ntype parentNote = ''code'' then ''code'' else ''text''),
                  eo_mime := Some (if ntype parentNote = ''code'' then mime parentNote
                                   else ''text/html''),
                  eo_content := (if content' = JUndefined then JString [] else content')\<rparr>)"
proof (cases "getNote s parentId")
  case None
  then show ?thesis
    by (simp add: createNote_def Let_def)
next
  case (Some parentNote)
  show ?thesis
    unfolding createNote_found [OF Some] Some
    by (cases content')
      (simp_all add: resolveOptions_def Let_def split: sum.splits prod.splits)
qed

theorem createNote_writes_extraOptions_witness:
  "fst (snd (createNote createLabelOrRelation stringifySample ''root'' ''T'' (JString ''hello'')
               (noOptions\<lparr>eo_type := Some ''image'', eo_mime := Some ''image/png''\<rparr>) sampleBecca)) =
     \<lparr>eo_parentNoteId = Some ''root'', eo_title = Some ''T'', eo_type = Some ''text'',
      eo_mime = Some ''text/html'', eo_content = JString ''hello'', eo_json = JUndefined,
      eo_attributes = None\<rparr>"
proof -
  have parent: "getNote sampleBecca ''root'' =
     Some \<lparr>noteId = ''root'', title = ''root'', ntype = ''text'', mime = ''text/html'',
           content = JString []\<rparr>"
    by code_simp
  from createNote_writes_extraOptions [of createLabelOrRelation stringifySample "''root''" "''T''"
         "JString ''hello''" "noOptions\<lparr>eo_type := Some ''image'', eo_mime := Some ''image/png''\<rparr>"
         sampleBecca]
  show ?thesis
    unfolding parent by (simp add: noOptions_def)
qed

text \<open>The loop of attribute creations stops at the first one that fails.\<close>

lemma createAttributes_append:
  "createAttributes cA nid (pre @ rest) s =
     (case createAttributes cA nid pre s of
        Inl e \<Rightarrow> Inl e
      | Inr s' \<Rightarrow> createAttributes cA nid rest s')"
  by (induction pre arbitrary: s) (auto split: sum.splits)

lemma createAttributes_fails_at:
  assumes "createAttributes cA nid pre s = Inr s'"
    and "cA \<lparr>p_noteId = nid, p_type = at_type attr, p_name = at_name attr,
             p_value = at_value attr, p_isInheritable = truthy (at_isInheritable attr)\<rparr> s' = Inl e"
  shows "createAttributes cA nid (pre @ attr # post) s = Inl e"
  using assms by (simp add: createAttributes_append)

text \<open>
  C2. Note, branch and attributes are created in one transaction. When the attributes
  before \<open>attr\<close> are created and the creation of \<open>attr\<close> fails with \<open>e\<close>, whatever the
  attribute-creation capability is, \<open>createNote\<close> throws \<open>e\<close> and the cache is the one of
  before the call: neither the note nor its branch persists.
\<close>

theorem createNote_all_or_nothing:
  assumes parent: "getNote s parentId = Some parentNote"
    and attrs: "eo_attributes extraOptions = Some (pre @ attr # post)"
    and resolved: "resolveOptions JSON_stringify parentNote
                     (if content' = JUndefined then JString [] else content')
                     (extraOptions\<lparr>eo_parentNoteId := Some parentId, eo_title := Some title'\<rparr>) =
                   (None, resolved)"
    and new: "createNewNote resolved s = ((note, branch), s1)"
    and before: "createAttributes createAttribute (noteId note) pre s1 = Inr s2"
    and fails: "createAttribute
                  \<lparr>p_noteId = noteId note, p_type = at_type attr, p_name = at_name attr,
                   p_value = at_value attr, p_isInheritable = truthy (at_isInheritable attr)\<rparr> s2 =
                Inl e"
  shows "fst (createNote createAttribute JSON_stringify parentId title' content' extraOptions s) = Inl e \<and>
         snd (snd (createNote createAttribute JSON_stringify parentId title' content' extraOptions s)) = s"
proof -
  have loop: "createAttributes createAttribute (noteId note) (pre @ attr # post) s1 = Inl e"
    using before fails by (rule createAttributes_fails_at)
  have "eo_attributes resolved = Some (pre @ attr # post)"
    using resolved attrs by (auto simp: resolveOptions_def Let_def split: if_splits sum.splits)
  with new loop show ?thesis
    unfolding createNote_found [OF parent] resolved
    by (simp add: Let_def transactional_def)
qed

theorem createNote_all_or_nothing_witness:
  "fst (createNote createLabelOrRelation stringifySample ''root'' ''T'' (JString ''hello'')
          (noOptions\<lparr>eo_attributes :=
             Some [\<lparr>at_type = ''label'', at_name = ''kept'', at_value = Some ''1'',
                    at_isInheritable = JBool True\<rparr>,
                   \<lparr>at_type = ''bogus'', at_name = ''x'', at_value = None,
                    at_isInheritable = JUndefined\<rparr>]\<rparr>) sampleBecca) =
     Inl (CollaboratorError ''Invalid attribute type'') \<and>
   snd (snd (createNote createLabelOrRelation stringifySample ''root'' ''T'' (JString ''hello'')
          (noOptions\<lparr>eo_attributes :=
             Some [\<lparr>at_type = ''label'', at_name = ''kept'', at_value = Some ''1'',
                    at_isInheritable = JBool True\<rparr>,
                   \<lparr>at_type = ''bogus'', at_name = ''x'', at_value = None,
                    at_isInheritable = JUndefined\<rparr>]\<rparr>) sampleBecca)) = sampleBecca"
proof -
  let ?root = "\<lparr>noteId = ''root'', title = ''root'', ntype = ''text'', mime = ''text/html'',
                content = JString []\<rparr>"
  let ?kept = "\<lparr>at_type = ''label'', at_name = ''kept'', at_value = Some ''1'',
                at_isInheritable = JBool True\<rparr>"
  let ?bogus = "\<lparr>at_type = ''bogus'', at_name = ''x'', at_value = None,
                 at_isInheritable = JUndefined\<rparr>"
  let ?eo = "noOptions\<lparr>eo_attributes := Some ([?kept] @ ?bogus # [])\<rparr>"
  let ?resolved = "\<lparr>eo_parentNoteId = Some ''root'', eo_title = Some ''T'', eo_type = Some ''text'',
                    eo_mime = Some ''text/html'', eo_content = JString ''hello'',
                    eo_json = JUndefined, eo_attributes = Some [?kept, ?bogus]\<rparr>"
  let ?new = "createNewNote ?resolved sampleBecca"
  let ?s2 = "(snd ?new)\<lparr>attributes :=
               [\<lparr>attributeId = ''id2'', a_noteId = ''id0'', a_type = ''label'', a_name = ''kept'',
                 a_value = Some ''1'', isInheritable = True\<rparr>], nextId := 3\<rparr>"
  have parent: "getNote sampleBecca ''root'' = Some ?root"
    by code_simp
  have attrs: "eo_attributes ?eo = Some ([?kept] @ ?bogus # [])"
    by simp
  have resolved: "resolveOptions stringifySample ?root
                    (if JString ''hello'' = JUndefined then JString [] else JString ''hello'')
                    (?eo\<lparr>eo_parentNoteId := Some ''root'', eo_title := Some ''T''\<rparr>) =
                  (None, ?resolved)"
    by (simp add: resolveOptions_def noOptions_def)
  have new: "?new = ((fst (fst ?new), snd (fst ?new)), snd ?new)"
    by simp
  have nid: "noteId (fst (fst ?new)) = ''id0''"
    by code_simp
  have before: "createAttributes createLabelOrRelation (noteId (fst (fst ?new))) [?kept] (snd ?new) =
                  Inr ?s2"
    unfolding nid by code_simp
  have fails: "createLabelOrRelation
                 \<lparr>p_noteId = noteId (fst (fst ?new)), p_type = at_type ?bogus,
                  p_name = at_name ?bogus, p_value = at_value ?bogus,
                  p_isInheritable = truthy (at_isInheritable ?bogus)\<rparr> ?s2 =
               Inl (CollaboratorError ''Invalid attribute type'')"
    by (simp add: createLabelOrRelation_def)
  from createNote_all_or_nothing [OF parent attrs resolved new before fails]
  show ?thesis
    by simp
qed

subsection \<open>\<open>log\<close> and the timer\<close>

text \<open>No event changes the start note, and every event keeps the keys within its id.\<close>

lemma dom_setProperty: "dom (setProperty obj key p) \<subseteq> insert key (dom obj)"
  by (auto simp: setProperty_def)

lemma log_startNote: "startNote (snd (log message st)) = startNote st"
  by (simp add: log_def Let_def split: option.splits property.splits)

lemma timerFires_startNote: "startNote (timerFires key st) = startNote st"
  by (simp add: timerFires_def updater_def Let_def split: option.splits property.splits)

lemma step_startNote: "startNote (step st ev) = startNote st"
  by (cases ev) (simp_all add: log_startNote timerFires_startNote)

lemma run_startNote: "startNote (run st evs) = startNote st"
  unfolding run_def by (induction evs arbitrary: st) (simp_all add: step_startNote)

lemma log_keys:
  assumes "startNote st = Some sn"
  shows "dom (logMessages (snd (log message st))) \<subseteq> insert (noteId sn) (dom (logMessages st))"
    and "dom (logSpacedUpdates (snd (log message st))) \<subseteq>
           insert (noteId sn) (dom (logSpacedUpdates st))"
    and "sentToAllClients (snd (log message st)) = sentToAllClients st"
proof -
  have m: "dom (setProperty (logMessages st) (noteId sn) p) \<subseteq> insert (noteId sn) (dom (logMessages st))"
    for p by (rule dom_setProperty)
  have t: "dom (setProperty (logSpacedUpdates st) (noteId sn) p) \<subseteq>
             insert (noteId sn) (dom (logSpacedUpdates st))"
    for p by (rule dom_setProperty)
  show "dom (logMessages (snd (log message st))) \<subseteq> insert (noteId sn) (dom (logMessages st))"
    using assms m by (auto simp: log_def Let_def split: option.splits property.splits)
  show "dom (logSpacedUpdates (snd (log message st))) \<subseteq>
           insert (noteId sn) (dom (logSpacedUpdates st))"
    using assms t by (auto simp: log_def Let_def split: option.splits property.splits)
  show "sentToAllClients (snd (log message st)) = sentToAllClients st"
    using assms by (simp add: log_def Let_def split: option.splits property.splits)
qed

lemma log_no_startNote:
  "startNote st = None \<Longrightarrow> log message st = (Some TypeError_undefined, st\<lparr>infoLog := infoLog st @ [message]\<rparr>)"
  by (simp add: log_def Let_def)

lemma log_singleKey: "singleKey st \<Longrightarrow> singleKey (snd (log message st))"
proof (cases "startNote st")
  case None
  assume "singleKey st"
  with None show ?thesis
    by (simp add: log_no_startNote singleKey_def)
next
  case (Some sn)
  assume inv: "singleKey st"
  note keys = log_keys [OF Some, of message]
  from inv Some have "dom (logMessages st) \<subseteq> {noteId sn}"
    and "dom (logSpacedUpdates st) \<subseteq> {noteId sn}"
    and sent: "m_noteId ` set (sentToAllClients st) \<subseteq> {noteId sn}"
    by (simp_all add: singleKey_def)
  with keys(1,2) have "dom (logMessages (snd (log message st))) \<subseteq> {noteId sn}"
    and "dom (logSpacedUpdates (snd (log message st))) \<subseteq> {noteId sn}"
    by blast+
  with sent keys(3) Some show ?thesis
    by (simp add: singleKey_def log_startNote)
qed

lemma timerFires_singleKey: "singleKey st \<Longrightarrow> singleKey (timerFires key st)"
  by (auto simp: singleKey_def timerFires_def updater_def Let_def
        split: option.splits if_splits property.splits)

lemma step_singleKey: "singleKey st \<Longrightarrow> singleKey (step st ev)"
  by (cases ev) (simp_all add: log_singleKey timerFires_singleKey)

lemma run_singleKey: "singleKey st \<Longrightarrow> singleKey (run st evs)"
  unfolding run_def by (induction evs arbitrary: st) (simp_all add: step_singleKey)

lemma BackendScriptApi_singleKey: "singleKey (BackendScriptApi currentNote' start)"
  by (simp add: singleKey_def BackendScriptApi_def)

text \<open>
  C10. Whatever the current note is and whatever sequence of \<open>log\<close> calls and timer
  firings an instance goes through, the keys of \<open>logMessages\<close> and of \<open>logSpacedUpdates\<close>
  hold no id but \<open>startNote.noteId\<close>, and every message sent to the clients carries that
  id. (Without a start note, \<open>log\<close> throws at line 290 and there is no key at all.)
\<close>

theorem log_single_key:
  "dom (logMessages (run (BackendScriptApi currentNote' start) evs)) \<subseteq> noteId ` set_option start \<and>
   dom (logSpacedUpdates (run (BackendScriptApi currentNote' start) evs)) \<subseteq> noteId ` set_option start \<and>
   m_noteId ` set (sentToAllClients (run (BackendScriptApi currentNote' start) evs))
     \<subseteq> noteId ` set_option start"
proof -
  have "singleKey (run (BackendScriptApi currentNote' start) evs)"
    by (rule run_singleKey) (rule BackendScriptApi_singleKey)
  moreover have "startNote (run (BackendScriptApi currentNote' start) evs) = start"
    by (simp add: run_startNote BackendScriptApi_def)
  ultimately show ?thesis
    by (simp add: singleKey_def)
qed

theorem log_single_key_witness:
  "dom (logMessages
          (run (BackendScriptApi
                  (Some \<lparr>noteId = ''child'', title = ''child'', ntype = ''code'',
                         mime = ''application/javascript;env=backend'', content = JString []\<rparr>)
                  (Some \<lparr>noteId = ''root'', title = ''root'', ntype = ''text'', mime = ''text/html'',
                         content = JString []\<rparr>))
             [Log (JString ''one''), Fire ''root'', Log (JString ''two'')])) = {''root''} \<and>
   dom (logSpacedUpdates
          (run (BackendScriptApi
                  (Some \<lparr>noteId = ''child'', title = ''child'', ntype = ''code'',
                         mime = ''application/javascript;env=backend'', content = JString []\<rparr>)
                  (Some \<lparr>noteId = ''root'', title = ''root'', ntype = ''text'', mime = ''text/html'',
                         content = JString []\<rparr>))
             [Log (JString ''one''), Fire ''root'', Log (JString ''two'')])) = {''root''}"
proof -
  let ?st = "run (BackendScriptApi
                  (Some \<lparr>noteId = ''child'', title = ''child'', ntype = ''code'',
                         mime = ''application/javascript;env=backend'', content = JString []\<rparr>)
                  (Some \<lparr>noteId = ''root'', title = ''root'', ntype = ''text'', mime = ''text/html'',
                         content = JString []\<rparr>))
             [Log (JString ''one''), Fire ''root'', Log (JString ''two'')]"
  have member: "''root'' \<notin> set objectPrototypeMembers"
    by (simp add: objectPrototypeMembers_def)
  have "''root'' \<in> dom (logMessages ?st)" and "''root'' \<in> dom (logSpacedUpdates ?st)"
    using member
    by (simp_all add: run_def log_def timerFires_def updater_def BackendScriptApi_def
          scheduleUpdate_def Let_def getProperty_def setProperty_def)
  with log_single_key [of "Some \<lparr>noteId = ''child'', title = ''child'', ntype = ''code'',
                         mime = ''application/javascript;env=backend'', content = JString []\<rparr>"
         "Some \<lparr>noteId = ''root'', title = ''root'', ntype = ''text'', mime = ''text/html'',
                         content = JString []\<rparr>"
         "[Log (JString ''one''), Fire ''root'', Log (JString ''two'')]"]
  show ?thesis
    by auto
qed

text \<open>
  What a call of \<open>log\<close> does under the id of the start note and under the other keys; so,
  in a state reached from a new instance, a timer that is scheduled has a message
  pending, and no timer sits under the name of a member of \<open>Object.prototype\<close>: with such
  a name as the id of the start note, \<open>log\<close> throws at line 304 and stores no message.
\<close>

lemma log_other_keys:
  assumes "startNote st = Some sn" and "key \<noteq> noteId sn"
  shows "logMessages (snd (log message st)) key = logMessages st key"
    and "logSpacedUpdates (snd (log message st)) key = logSpacedUpdates st key"
  using assms
  by (simp_all add: log_def Let_def setProperty_def split: option.split property.split)

lemma log_start_key:
  assumes "startNote st = Some sn"
    and "logSpacedUpdates (snd (log message st)) (noteId sn) = Some (Value su)"
  shows "(\<exists>su'. logSpacedUpdates st (noteId sn) = Some (Value su')) \<or>
         noteId sn \<notin> set objectPrototypeMembers"
    and "scheduled su \<longrightarrow>
         (\<exists>ms. logMessages (snd (log message st)) (noteId sn) = Some (Value (ms @ [message]))) \<or>
         (logSpacedUpdates st (noteId sn) = Some (Value su) \<and>
          (\<forall>ms. logMessages st (noteId sn) \<noteq> Some (Value ms)))"
  using assms
  by (auto simp: log_def Let_def getProperty_def setProperty_def
        split: option.split_asm property.split_asm if_split_asm)

lemma log_pendingWhenScheduled:
  assumes inv: "pendingWhenScheduled st"
  shows "pendingWhenScheduled (snd (log message st))"
proof (cases "startNote st")
  case None
  with inv show ?thesis
    by (simp add: log_no_startNote pendingWhenScheduled_def)
next
  case (Some sn)
  show ?thesis
    unfolding pendingWhenScheduled_def
  proof (intro allI impI)
    fix key su
    assume timer: "logSpacedUpdates (snd (log message st)) key = Some (Value su) \<and> scheduled su"
    show "\<exists>ms. logMessages (snd (log message st)) key = Some (Value ms) \<and> ms \<noteq> []"
    proof (cases "key = noteId sn")
      case False
      with timer inv log_other_keys [OF Some False, of message] show ?thesis
        by (simp add: pendingWhenScheduled_def)
    next
      case True
      from timer True log_start_key(2) [OF Some, of message su]
      consider ms where "logMessages (snd (log message st)) (noteId sn) = Some (Value (ms @ [message]))"
        | "logSpacedUpdates st (noteId sn) = Some (Value su)"
          "\<forall>ms. logMessages st (noteId sn) \<noteq> Some (Value ms)"
        by blast
      then show ?thesis
      proof cases
        case 1
        with True show ?thesis by simp
      next
        case 2
        with inv timer have False
          unfolding pendingWhenScheduled_def by blast
        then show ?thesis ..
      qed
    qed
  qed
qed

lemma log_timersOffPrototype:
  assumes inv: "timersOffPrototype st"
  shows "timersOffPrototype (snd (log message st))"
proof (cases "startNote st")
  case None
  with inv show ?thesis
    by (simp add: log_no_startNote timersOffPrototype_def)
next
  case (Some sn)
  show ?thesis
    unfolding timersOffPrototype_def
  proof (intro allI impI)
    fix key su
    assume timer: "logSpacedUpdates (snd (log message st)) key = Some (Value su)"
    show "key \<notin> set objectPrototypeMembers"
    proof (cases "key = noteId sn")
      case False
      with timer inv log_other_keys(2) [OF Some False, of message] show ?thesis
        by (simp add: timersOffPrototype_def)
    next
      case True
      with timer log_start_key(1) [OF Some, of message su] inv show ?thesis
        unfolding timersOffPrototype_def by blast
    qed
  qed
qed

lemma timerFires_pendingWhenScheduled:
  "pendingWhenScheduled st \<Longrightarrow> pendingWhenScheduled (timerFires key st)"
  by (auto simp: pendingWhenScheduled_def timerFires_def updater_def Let_def
        split: option.splits if_splits property.splits)

lemma timerFires_timersOffPrototype:
  "timersOffPrototype st \<Longrightarrow> timersOffPrototype (timerFires key st)"
  by (auto simp: timersOffPrototype_def timerFires_def updater_def Let_def
        split: option.splits if_splits property.splits)

lemma step_pendingWhenScheduled: "pendingWhenScheduled st \<Longrightarrow> pendingWhenScheduled (step st ev)"
  by (cases ev) (simp_all add: log_pendingWhenScheduled timerFires_pendingWhenScheduled)

lemma run_pendingWhenScheduled: "pendingWhenScheduled st \<Longrightarrow> pendingWhenScheduled (run st evs)"
  unfolding run_def by (induction evs arbitrary: st) (simp_all add: step_pendingWhenScheduled)

lemma step_timersOffPrototype: "timersOffPrototype st \<Longrightarrow> timersOffPrototype (step st ev)"
  by (cases ev) (simp_all add: log_timersOffPrototype timerFires_timersOffPrototype)

lemma run_timersOffPrototype: "timersOffPrototype st \<Longrightarrow> timersOffPrototype (run st evs)"
  unfolding run_def by (induction evs arbitrary: st) (simp_all add: step_timersOffPrototype)

lemma scheduled_timer_has_pending:
  assumes "logSpacedUpdates (run (BackendScriptApi currentNote' start) evs) key = Some (Value su)"
    and "scheduled su"
  shows "\<exists>ms. logMessages (run (BackendScriptApi currentNote' start) evs) key = Some (Value ms) \<and>
              ms \<noteq> []"
proof -
  have "pendingWhenScheduled (BackendScriptApi currentNote' start)"
    by (simp add: pendingWhenScheduled_def BackendScriptApi_def)
  then have "pendingWhenScheduled (run (BackendScriptApi currentNote' start) evs)"
    by (rule run_pendingWhenScheduled)
  with assms show ?thesis
    unfolding pendingWhenScheduled_def by blast
qed

lemma timer_off_prototype:
  assumes "logSpacedUpdates (run (BackendScriptApi currentNote' start) evs) key = Some (Value su)"
  shows "key \<notin> set objectPrototypeMembers"
proof -
  have "timersOffPrototype (BackendScriptApi currentNote' start)"
    by (simp add: timersOffPrototype_def BackendScriptApi_def)
  then have "timersOffPrototype (run (BackendScriptApi currentNote' start) evs)"
    by (rule run_timersOffPrototype)
  with assms show ?thesis
    unfolding timersOffPrototype_def by blast
qed

lemma log_prototype_member:
  assumes "startNote st = Some sn" and "noteId sn \<in> set objectPrototypeMembers"
    and "logMessages st (noteId sn) = None"
  shows "fst (log message st) = Some TypeError_not_a_function"
    and "sentToAllClients (snd (log message st)) = sentToAllClients st"
    and "\<forall>ms. logMessages (snd (log message st)) (noteId sn) \<noteq> Some (Value ms)"
  using assms
  by (auto simp: log_def Let_def getProperty_def setProperty_def split: option.splits property.splits)

text \<open>
  C4. The claim has the firing deliver no event when the pending sequence is empty. The
  callback of lines 293-302 has no such check: run on an empty sequence, it sends one
  event whose list of messages is empty.
\<close>

theorem timerFires_empty_counterexample:
  "logMessages
     \<lparr>startNote = Some \<lparr>noteId = ''root'', title = ''root'', ntype = ''text'', mime = ''text/html'',
                        content = JString []\<rparr>,
      currentNote = None,
      logMessages = [''root'' \<mapsto> Value []],
      logSpacedUpdates = [''root'' \<mapsto> Value \<lparr>updateInterval = 100, scheduled = True\<rparr>],
      infoLog = [], sentToAllClients = []\<rparr> ''root'' = Some (Value []) \<and>
   sentToAllClients
     (timerFires ''root''
        \<lparr>startNote = Some \<lparr>noteId = ''root'', title = ''root'', ntype = ''text'', mime = ''text/html'',
                           content = JString []\<rparr>,
         currentNote = None,
         logMessages = [''root'' \<mapsto> Value []],
         logSpacedUpdates = [''root'' \<mapsto> Value \<lparr>updateInterval = 100, scheduled = True\<rparr>],
         infoLog = [], sentToAllClients = []\<rparr>) =
     [\<lparr>m_type = ''api-log-messages'', m_noteId = ''root'', m_messages = Some (Value [])\<rparr>]"
  by (simp add: timerFires_def updater_def Let_def)

text \<open>
  C4, amended. When the timer of a key fires, the pending sequence of the key is swapped
  for the empty one, exactly one event goes out to the clients, carrying the key and the
  whole sequence that was pending, in the order it was in (empty or not), the pending
  sequence of no other key changes, and the timer is idle again.
\<close>

theorem timerFires_flushes:
  assumes "logSpacedUpdates st key = Some (Value su)" and "scheduled su"
  shows "logMessages (timerFires key st) = (logMessages st)(key \<mapsto> Value []) \<and>
         sentToAllClients (timerFires key st) =
           sentToAllClients st @
             [\<lparr>m_type = ''api-log-messages'', m_noteId = key, m_messages = logMessages st key\<rparr>] \<and>
         logSpacedUpdates (timerFires key st) =
           (logSpacedUpdates st)(key \<mapsto> Value (su\<lparr>scheduled := False\<rparr>))"
  using assms by (simp add: timerFires_def updater_def Let_def)

theorem timerFires_flushes_witness:
  "sentToAllClients
     (timerFires ''root''
        (run (BackendScriptApi None
                (Some \<lparr>noteId = ''root'', title = ''root'', ntype = ''text'', mime = ''text/html'',
                       content = JString []\<rparr>))
           [Log (JString ''one''), Log (JString ''two'')])) =
     [\<lparr>m_type = ''api-log-messages'', m_noteId = ''root'',
       m_messages = Some (Value [JString ''one'', JString ''two''])\<rparr>] \<and>
   logMessages
     (timerFires ''root''
        (run (BackendScriptApi None
                (Some \<lparr>noteId = ''root'', title = ''root'', ntype = ''text'', mime = ''text/html'',
                       content = JString []\<rparr>))
           [Log (JString ''one''), Log (JString ''two'')])) ''root'' = Some (Value [])"
proof -
  let ?st = "run (BackendScriptApi None
                (Some \<lparr>noteId = ''root'', title = ''root'', ntype = ''text'', mime = ''text/html'',
                       content = JString []\<rparr>))
           [Log (JString ''one''), Log (JString ''two'')]"
  have member: "''root'' \<notin> set objectPrototypeMembers"
    by (simp add: objectPrototypeMembers_def)
  have timer: "logSpacedUpdates ?st ''root'' = Some (Value \<lparr>updateInterval = 100, scheduled = True\<rparr>)"
    using member
    by (simp add: run_def log_def BackendScriptApi_def scheduleUpdate_def Let_def
          getProperty_def setProperty_def)
  have on: "scheduled \<lparr>updateInterval = 100, scheduled = True\<rparr>"
    by simp
  have pending: "logMessages ?st ''root'' = Some (Value [JString ''one'', JString ''two''])"
    using member
    by (simp add: run_def log_def BackendScriptApi_def Let_def getProperty_def setProperty_def)
  have sent: "sentToAllClients ?st = []"
    using member
    by (simp add: run_def log_def BackendScriptApi_def Let_def getProperty_def setProperty_def)
  from timerFires_flushes [OF timer on] pending sent show ?thesis
    by simp
qed

text \<open>
  Coalescing: the messages of any number of \<open>log\<close> calls on a new instance go out as one
  event at the firing, in call order.
\<close>

lemma log_first:
  assumes "startNote st = Some sn" and "noteId sn \<notin> set objectPrototypeMembers"
    and "logMessages st (noteId sn) = None" and "logSpacedUpdates st (noteId sn) = None"
  shows "log message st =
           (None,
            st\<lparr>infoLog := infoLog st @ [message],
                logMessages := (logMessages st)(noteId sn \<mapsto> Value [message]),
                logSpacedUpdates := (logSpacedUpdates st)
                  (noteId sn \<mapsto> Value \<lparr>updateInterval = 100, scheduled = True\<rparr>)\<rparr>)"
  using assms
  by (simp add: log_def Let_def getProperty_def setProperty_def scheduleUpdate_def)

lemma log_next:
  assumes "startNote st = Some sn"
    and "logMessages st (noteId sn) = Some (Value ms)"
    and "logSpacedUpdates st (noteId sn) = Some (Value su)"
  shows "log message st =
           (None,
            st\<lparr>infoLog := infoLog st @ [message],
                logMessages := (logMessages st)(noteId sn \<mapsto> Value (ms @ [message])),
                logSpacedUpdates := (logSpacedUpdates st)(noteId sn \<mapsto> Value (scheduleUpdate su))\<rparr>)"
  using assms
  by (simp add: log_def Let_def getProperty_def setProperty_def)

lemma logs_pending:
  assumes "noteId sn \<notin> set objectPrototypeMembers" and "messages \<noteq> []"
  shows "logMessages (run (BackendScriptApi currentNote' (Some sn)) (map Log messages)) (noteId sn) =
           Some (Value messages) \<and>
         (\<exists>su. logSpacedUpdates (run (BackendScriptApi currentNote' (Some sn)) (map Log messages))
                 (noteId sn) = Some (Value su) \<and> scheduled su) \<and>
         sentToAllClients (run (BackendScriptApi currentNote' (Some sn)) (map Log messages)) = []"
  using assms(2)
proof (induction messages rule: rev_induct)
  case Nil
  then show ?case by simp
next
  case (snoc m ms)
  let ?init = "BackendScriptApi currentNote' (Some sn)"
  let ?st = "run ?init (map Log ms)"
  have start: "startNote ?st = Some sn"
    by (simp add: run_startNote BackendScriptApi_def)
  have run: "run ?init (map Log (ms @ [m])) = snd (log m ?st)"
    by (simp add: run_def)
  show ?case
  proof (cases "ms = []")
    case True
    then have "?st = ?init"
      by (simp add: run_def)
    moreover have "logMessages ?init (noteId sn) = None" "logSpacedUpdates ?init (noteId sn) = None"
      "sentToAllClients ?init = []" "startNote ?init = Some sn"
      by (simp_all add: BackendScriptApi_def)
    ultimately show ?thesis
      using log_first [OF _ assms(1), of ?init m] True
      unfolding run by simp
  next
    case False
    from snoc.IH [OF False] obtain su where
      pending: "logMessages ?st (noteId sn) = Some (Value ms)"
      and timer: "logSpacedUpdates ?st (noteId sn) = Some (Value su)" "scheduled su"
      and sent: "sentToAllClients ?st = []"
      by blast
    from log_next [OF start pending timer(1), of m] timer(2) sent show ?thesis
      unfolding run by (simp add: scheduleUpdate_def)
  qed
qed

lemma coalescing:
  assumes "noteId sn \<notin> set objectPrototypeMembers" and "messages \<noteq> []"
  shows "sentToAllClients
           (run (BackendScriptApi currentNote' (Some sn)) (map Log messages @ [Fire (noteId sn)])) =
           [\<lparr>m_type = ''api-log-messages'', m_noteId = noteId sn,
             m_messages = Some (Value messages)\<rparr>] \<and>
         logMessages
           (run (BackendScriptApi currentNote' (Some sn)) (map Log messages @ [Fire (noteId sn)]))
           (noteId sn) = Some (Value [])"
proof -
  let ?init = "BackendScriptApi currentNote' (Some sn)"
  let ?st = "run ?init (map Log messages)"
  from logs_pending [OF assms, of currentNote'] obtain su where
    pending: "logMessages ?st (noteId sn) = Some (Value messages)"
    and timer: "logSpacedUpdates ?st (noteId sn) = Some (Value su)" "scheduled su"
    and sent: "sentToAllClients ?st = []"
    by blast
  have "run ?init (map Log messages @ [Fire (noteId sn)]) = timerFires (noteId sn) ?st"
    by (simp add: run_def)
  with timer pending sent show ?thesis
    by (simp add: timerFires_def updater_def Let_def)
qed

subsection \<open>The body of \<open>createOrUpdateLauncher\<close>\<close>

text \<open>Searching a list that has been extended, filtered or overwritten.\<close>

lemma find_append:
  "find P (xs @ ys) = (case find P xs of None \<Rightarrow> find P ys | Some x \<Rightarrow> Some x)"
  by (induction xs) simp_all

lemma find_filter: "(\<And>x. P x \<Longrightarrow> Q x) \<Longrightarrow> find P (filter Q xs) = find P xs"
  by (induction xs) auto

lemma find_filter_not: "find P (filter (\<lambda>x. \<not> P x) xs) = None"
  by (induction xs) auto

lemma filter_not_noop: "find P xs = None \<Longrightarrow> filter (\<lambda>x. \<not> P x) xs = xs"
  by (induction xs) (auto split: if_splits)

lemma list_ex_find: "list_ex P xs = (find P xs \<noteq> None)"
  by (induction xs) auto

lemma isAttr_a_value [simp]: "isAttr ty nid nm (a\<lparr>a_value := v\<rparr>) = isAttr ty nid nm a"
  by (simp add: isAttr_def)

lemma isAttr_same:
  "isAttr ty nid nm a \<Longrightarrow> isAttr ty' nid' nm' a \<Longrightarrow> ty = ty' \<and> nid = nid' \<and> nm = nm'"
  by (auto simp: isAttr_def)

lemma find_overwriteFirst_other:
  assumes "\<And>a. P' a \<Longrightarrow> \<not> P a" and "\<And>a. P (a\<lparr>a_value := v\<rparr>) = P a"
  shows "find P (overwriteFirst P' v xs) = find P xs"
  using assms by (induction xs) auto

lemma find_overwriteFirst_same:
  assumes "\<And>a. P (a\<lparr>a_value := v\<rparr>) = P a" and "find P xs = Some a"
  shows "find P (overwriteFirst P v xs) = Some (a\<lparr>a_value := v\<rparr>)"
  using assms by (induction xs) (auto split: if_splits)

lemma overwriteFirst_noop:
  "find P xs = Some a \<Longrightarrow> a_value a = v \<Longrightarrow> overwriteFirst P v xs = xs"
  by (induction xs) (auto split: if_splits)

text \<open>
  What the attribute operations do to the first attribute of a note with a given type and
  name, the one \<open>setRelation\<close> and \<open>setLabel\<close> write to.
\<close>

lemma setAttribute_frame:
  "becca_notes (setAttribute ty nid nm v s) = becca_notes s"
  "branches (setAttribute ty nid nm v s) = branches s"
  by (simp_all add: setAttribute_def)

lemma removeLabel_frame:
  "becca_notes (removeLabel nid nm s) = becca_notes s"
  "branches (removeLabel nid nm s) = branches s"
  "nextId (removeLabel nid nm s) = nextId s"
  by (simp_all add: removeLabel_def)

lemma setAttribute_find:
  "\<exists>a. find (isAttr ty nid nm) (attributes (setAttribute ty nid nm v s)) = Some a \<and> a_value a = v"
proof (cases "find (isAttr ty nid nm) (attributes s)")
  case None
  then show ?thesis
    by (simp add: setAttribute_def list_ex_find find_append isAttr_def)
next
  case (Some a)
  then show ?thesis
    by (simp add: setAttribute_def list_ex_find find_overwriteFirst_same)
qed

lemma setAttribute_noop:
  assumes "find (isAttr ty nid nm) (attributes s) = Some a" and "a_value a = v"
  shows "setAttribute ty nid nm v s = s"
  using assms by (simp add: setAttribute_def list_ex_find overwriteFirst_noop)

lemma setAttribute_find_other:
  assumes "(ty', nid', nm') \<noteq> (ty, nid, nm)"
  shows "find (isAttr ty' nid' nm') (attributes (setAttribute ty nid nm v s)) =
         find (isAttr ty' nid' nm') (attributes s)"
proof -
  have other: "\<not> isAttr ty' nid' nm' a" if "isAttr ty nid nm a" for a
    using that assms by (auto simp: isAttr_def)
  show ?thesis
  proof (cases "list_ex (isAttr ty nid nm) (attributes s)")
    case True
    then show ?thesis
      by (simp add: setAttribute_def find_overwriteFirst_other other)
  next
    case False
    have "\<not> isAttr ty' nid' nm'
            \<lparr>attributeId = newEntityId (nextId s), a_noteId = nid, a_type = ty, a_name = nm,
             a_value = v, isInheritable = False\<rparr>"
      by (rule other) (simp add: isAttr_def)
    with False show ?thesis
      by (simp add: setAttribute_def find_append split: option.splits)
  qed
qed

lemma removeLabel_find_other:
  assumes "(ty', nid', nm') \<noteq> (''label'', nid, nm)"
  shows "find (isAttr ty' nid' nm') (attributes (removeLabel nid nm s)) =
         find (isAttr ty' nid' nm') (attributes s)"
proof -
  have "\<not> isAttr ''label'' nid nm a" if "isAttr ty' nid' nm' a" for a
    using that assms by (auto simp: isAttr_def)
  then show ?thesis
    by (simp add: removeLabel_def find_filter)
qed

lemma removeLabel_find:
  "find (isAttr ''label'' nid nm) (attributes (removeLabel nid nm s)) = None"
  by (simp add: removeLabel_def find_filter_not)

lemma removeLabel_noop:
  "find (isAttr ''label'' nid nm) (attributes s) = None \<Longrightarrow> removeLabel nid nm s = s"
  by (simp add: removeLabel_def filter_not_noop)

text \<open>The note of the launcher through lines 477-488.\<close>

lemma getNote_noteId: "getNote s nid = Some n \<Longrightarrow> noteId n = nid"
  by (auto simp: getNote_def find_Some_iff)

lemma getNote_save:
  assumes "getNote s (noteId n) = Some m"
  shows "getNote (save n s) (noteId n) = Some n"
proof -
  have "find (\<lambda>x. noteId x = k) (map (\<lambda>x. if noteId x = k then n else x) xs) = Some n"
    if "find (\<lambda>x. noteId x = k) xs = Some m" and "noteId n = k" for xs k
    using that by (induction xs) (auto split: if_splits)
  with assms show ?thesis
    by (simp add: getNote_def save_def list_ex_find)
qed

lemma save_frame:
  "branches (save n s) = branches s" "attributes (save n s) = attributes s"
  "nextId (save n s) = nextId s"
  by (simp_all add: save_def)

lemma findOrCreateLauncher_found:
  "getNote s nid = Some n \<Longrightarrow> findOrCreateLauncher nid parentId ty s = (n, s)"
  by (simp add: findOrCreateLauncher_def)

lemma findOrCreateLauncher_note:
  assumes "findOrCreateLauncher nid parentId ty s = (n, s1)"
  shows "getNote s1 nid = Some n"
proof (cases "getNote s nid")
  case None
  with assms show ?thesis
    by (auto simp: findOrCreateLauncher_def createLauncher_def getNote_def Let_def find_append)
next
  case (Some m)
  with assms show ?thesis
    by (simp add: findOrCreateLauncher_def)
qed

lemma updateTitle_note:
  assumes "getNote s nid = Some found" and "updateTitle t found s = (n, s2)"
  shows "getNote s2 nid = Some n" and "title n = t" and "noteId n = nid"
    and "branches s2 = branches s" and "attributes s2 = attributes s"
proof -
  from assms(1) have nid: "noteId found = nid"
    by (rule getNote_noteId)
  show "getNote s2 nid = Some n"
  proof (cases "title found = t")
    case True
    with assms show ?thesis by (simp add: updateTitle_def)
  next
    case False
    with assms(2) have n: "n = found\<lparr>title := t\<rparr>" and s2: "s2 = save n s"
      by (auto simp: updateTitle_def)
    from n nid have "noteId n = nid" by simp
    with getNote_save [of s n found] assms(1) s2 show ?thesis by simp
  qed
  from assms(2) nid show "title n = t" and "noteId n = nid"
    and "branches s2 = branches s" and "attributes s2 = attributes s"
    by (auto simp: updateTitle_def save_frame split: if_splits)
qed

lemma updateTitle_same: "title n = t \<Longrightarrow> updateTitle t n s = (n, s)"
  by (simp add: updateTitle_def)

text \<open>
  The branches through lines 490-496. When a note has one parent branch, moving that
  branch changes the parent of that branch and nothing else.
\<close>

lemma single_parent_branch:
  assumes "filter (\<lambda>x. b_noteId x = nid) bs = [b]"
  shows "b_noteId b = nid \<and> (\<forall>x\<in>set bs. b_noteId x = nid \<longrightarrow> x = b)"
proof -
  have "set (filter (\<lambda>x. b_noteId x = nid) bs) = {b}"
    by (simp only: assms list.set)
  then have "{x \<in> set bs. b_noteId x = nid} = {b}"
    by (simp only: set_filter)
  then show ?thesis
    by blast
qed


lemma moved_branches:
  assumes "b_noteId b = nid" and "\<forall>x\<in>set bs. b_noteId x = nid \<longrightarrow> x = b"
  shows "filter (\<lambda>x. b_noteId x = nid) (map (\<lambda>x. if x = b then x\<lparr>parentNoteId := p\<rparr> else x) bs) =
           map (\<lambda>x. x\<lparr>parentNoteId := p\<rparr>) (filter (\<lambda>x. b_noteId x = nid) bs) \<and>
         filter (\<lambda>x. b_noteId x \<noteq> nid) (map (\<lambda>x. if x = b then x\<lparr>parentNoteId := p\<rparr> else x) bs) =
           filter (\<lambda>x. b_noteId x \<noteq> nid) bs \<and>
         map branchId (map (\<lambda>x. if x = b then x\<lparr>parentNoteId := p\<rparr> else x) bs) = map branchId bs"
  using assms(2)
proof (induction bs)
  case Nil
  show ?case by simp
next
  case (Cons c cs)
  then have IH: "filter (\<lambda>x. b_noteId x = nid) (map (\<lambda>x. if x = b then x\<lparr>parentNoteId := p\<rparr> else x) cs) =
           map (\<lambda>x. x\<lparr>parentNoteId := p\<rparr>) (filter (\<lambda>x. b_noteId x = nid) cs) \<and>
         filter (\<lambda>x. b_noteId x \<noteq> nid) (map (\<lambda>x. if x = b then x\<lparr>parentNoteId := p\<rparr> else x) cs) =
           filter (\<lambda>x. b_noteId x \<noteq> nid) cs \<and>
         map branchId (map (\<lambda>x. if x = b then x\<lparr>parentNoteId := p\<rparr> else x) cs) = map branchId cs"
    by simp
  show ?case
  proof (cases "c = b")
    case True
    with IH assms(1) show ?thesis by simp
  next
    case False
    with Cons.prems have "b_noteId c \<noteq> nid" by auto
    with False IH show ?thesis by simp
  qed
qed


lemma updateParent_cases:
  "updateParent n p s = s \<or>
   (\<exists>b. getParentBranches s (noteId n) = [b] \<and> parentNoteId b \<noteq> p \<and>
        updateParent n p s = moveBranchToNote b p s)"
proof (cases "getParentBranches s (noteId n)")
  case Nil
  then show ?thesis by (simp add: updateParent_def)
next
  case (Cons b rest)
  show ?thesis
  proof (cases rest)
    case Nil
    with Cons show ?thesis by (simp add: updateParent_def)
  next
    case (Cons c more)
    with \<open>getParentBranches s (noteId n) = b # rest\<close> show ?thesis
      by (simp add: updateParent_def)
  qed
qed

lemma updateParent_frame:
  "becca_notes (updateParent n p s) = becca_notes s"
  "attributes (updateParent n p s) = attributes s"
  "nextId (updateParent n p s) = nextId s"
  using updateParent_cases [of n p s] by (auto simp: moveBranchToNote_def)

lemma updateParent_moves:
  assumes "getParentBranches s (noteId n) = [b]" and "parentNoteId b \<noteq> p"
  shows "branches (updateParent n p s) =
           map (\<lambda>x. if x = b then x\<lparr>parentNoteId := p\<rparr> else x) (branches s)"
    and "getParentBranches (updateParent n p s) (noteId n) = [b\<lparr>parentNoteId := p\<rparr>]"
proof -
  show moved: "branches (updateParent n p s) =
           map (\<lambda>x. if x = b then x\<lparr>parentNoteId := p\<rparr> else x) (branches s)"
    using assms by (simp add: updateParent_def moveBranchToNote_def)
  from assms(1) have one: "filter (\<lambda>x. b_noteId x = noteId n) (branches s) = [b]"
    by (simp add: getParentBranches_def)
  from single_parent_branch [OF one]
  have "b_noteId b = noteId n" and "\<forall>x\<in>set (branches s). b_noteId x = noteId n \<longrightarrow> x = b"
    by simp_all
  from moved_branches [OF this, of p] one moved
  show "getParentBranches (updateParent n p s) (noteId n) = [b\<lparr>parentNoteId := p\<rparr>]"
    by (simp add: getParentBranches_def)
qed

lemma updateParent_stays:
  assumes "\<not> (\<exists>b. getParentBranches s (noteId n) = [b] \<and> parentNoteId b \<noteq> p)"
  shows "updateParent n p s = s"
  using assms updateParent_cases [of n p s] by blast

lemma updateParent_fixed:
  assumes "branches s' = branches (updateParent n p s)"
  shows "updateParent n p s' = s'"
proof (cases "\<exists>b. getParentBranches s (noteId n) = [b] \<and> parentNoteId b \<noteq> p")
  case True
  then obtain b where b: "getParentBranches s (noteId n) = [b]" "parentNoteId b \<noteq> p"
    by blast
  from updateParent_moves(2) [OF b] assms
  have "getParentBranches s' (noteId n) = [b\<lparr>parentNoteId := p\<rparr>]"
    by (simp add: getParentBranches_def)
  then show ?thesis
    by (simp add: updateParent_def)
next
  case False
  then have "updateParent n p s = s"
    by (rule updateParent_stays)
  with assms have "getParentBranches s' (noteId n) = getParentBranches s (noteId n)"
    by (simp add: getParentBranches_def)
  with False have "\<not> (\<exists>b. getParentBranches s' (noteId n) = [b] \<and> parentNoteId b \<noteq> p)"
    by simp
  then show ?thesis
    by (rule updateParent_stays)
qed

text \<open>
  The attributes through lines 498-518: each block writes to the attributes of one type
  and name and leaves the first attribute of any other type or name as it is.
\<close>

lemma updateRelation_valid:
  assumes "ty \<in> set [''note'', ''script'', ''customWidget'']"
  shows "\<exists>nm v. \<forall>s. updateRelation ty n opts s = Inr (setAttribute ''relation'' (noteId n) nm v s)"
proof -
  from assms consider "ty = ''note''" | "ty = ''script''" | "ty = ''customWidget''"
    by auto
  then show ?thesis
  proof cases
    case 1
    then have "\<forall>s. updateRelation ty n opts s =
                 Inr (setAttribute ''relation'' (noteId n) ''target'' (o_targetNoteId opts) s)"
      by (simp add: updateRelation_def setRelation_def)
    then show ?thesis by blast
  next
    case 2
    then have "\<forall>s. updateRelation ty n opts s =
                 Inr (setAttribute ''relation'' (noteId n) ''script'' (o_scriptNoteId opts) s)"
      by (simp add: updateRelation_def setRelation_def)
    then show ?thesis by blast
  next
    case 3
    then have "\<forall>s. updateRelation ty n opts s =
                 Inr (setAttribute ''relation'' (noteId n) ''widget'' (o_widgetNoteId opts) s)"
      by (simp add: updateRelation_def setRelation_def)
    then show ?thesis by blast
  qed
qed

lemma updateKeyboardShortcut_frame:
  "becca_notes (updateKeyboardShortcut n opts s) = becca_notes s"
  "branches (updateKeyboardShortcut n opts s) = branches s"
  by (simp_all add: updateKeyboardShortcut_def setLabel_def setAttribute_frame removeLabel_frame)

lemma updateIcon_frame:
  "becca_notes (updateIcon n opts s) = becca_notes s"
  "branches (updateIcon n opts s) = branches s"
  by (simp_all add: updateIcon_def setLabel_def setAttribute_frame removeLabel_frame
        split: option.splits)

lemma updateKeyboardShortcut_find_other:
  assumes "(ty', nid', nm') \<noteq> (''label'', noteId n, ''keyboardShortcut'')"
  shows "find (isAttr ty' nid' nm') (attributes (updateKeyboardShortcut n opts s)) =
         find (isAttr ty' nid' nm') (attributes s)"
  using assms
  by (simp add: updateKeyboardShortcut_def setLabel_def setAttribute_find_other
        removeLabel_find_other)

lemma updateIcon_find_other:
  assumes "(ty', nid', nm') \<noteq> (''label'', noteId n, ''iconClass'')"
  shows "find (isAttr ty' nid' nm') (attributes (updateIcon n opts s)) =
         find (isAttr ty' nid' nm') (attributes s)"
  using assms
  by (simp add: updateIcon_def setLabel_def setAttribute_find_other removeLabel_find_other
        split: option.splits)

lemma setAttribute_fixed:
  assumes "find (isAttr ty nid nm) (attributes s') =
           find (isAttr ty nid nm) (attributes (setAttribute ty nid nm v s))"
  shows "setAttribute ty nid nm v s' = s'"
proof -
  from setAttribute_find [of ty nid nm v s] assms
  obtain a where "find (isAttr ty nid nm) (attributes s') = Some a" and "a_value a = v"
    by auto
  then show ?thesis
    by (rule setAttribute_noop)
qed

lemma removeLabel_fixed:
  assumes "find (isAttr ''label'' nid nm) (attributes s') =
           find (isAttr ''label'' nid nm) (attributes (removeLabel nid nm s))"
  shows "removeLabel nid nm s' = s'"
  using assms by (simp add: removeLabel_find removeLabel_noop)

lemma updateKeyboardShortcut_set:
  assumes "truthy_str (o_keyboardShortcut opts)"
  shows "\<exists>a. find (isAttr ''label'' (noteId n) ''keyboardShortcut'')
               (attributes (updateKeyboardShortcut n opts s)) = Some a \<and>
             a_value a = o_keyboardShortcut opts"
  using assms setAttribute_find [of "''label''" "noteId n" "''keyboardShortcut''"
                 "o_keyboardShortcut opts" s]
  by (simp add: updateKeyboardShortcut_def setLabel_def)

lemma updateKeyboardShortcut_removed:
  assumes "\<not> truthy_str (o_keyboardShortcut opts)"
  shows "find (isAttr ''label'' (noteId n) ''keyboardShortcut'')
           (attributes (updateKeyboardShortcut n opts s)) = None"
  using assms by (simp add: updateKeyboardShortcut_def removeLabel_find)

lemma updateKeyboardShortcut_fixed:
  assumes "find (isAttr ''label'' (noteId n) ''keyboardShortcut'') (attributes s') =
           find (isAttr ''label'' (noteId n) ''keyboardShortcut'')
             (attributes (updateKeyboardShortcut n opts s))"
  shows "updateKeyboardShortcut n opts s' = s'"
proof (cases "truthy_str (o_keyboardShortcut opts)")
  case True
  with assms show ?thesis
    by (simp add: updateKeyboardShortcut_def setLabel_def setAttribute_fixed)
next
  case False
  with assms show ?thesis
    by (simp add: updateKeyboardShortcut_def removeLabel_fixed)
qed

lemma updateIcon_set:
  assumes "o_icon opts = Some icon" and "icon \<noteq> []"
  shows "\<exists>a. find (isAttr ''label'' (noteId n) ''iconClass'')
               (attributes (updateIcon n opts s)) = Some a \<and>
             a_value a = Some (''bx '' @ icon)"
  using assms setAttribute_find [of "''label''" "noteId n" "''iconClass''" "Some (''bx '' @ icon)" s]
  by (simp add: updateIcon_def setLabel_def)

lemma updateIcon_removed:
  assumes "\<not> truthy_str (o_icon opts)"
  shows "find (isAttr ''label'' (noteId n) ''iconClass'') (attributes (updateIcon n opts s)) = None"
  using assms by (cases "o_icon opts") (simp_all add: updateIcon_def removeLabel_find)

lemma updateIcon_fixed:
  assumes "find (isAttr ''label'' (noteId n) ''iconClass'') (attributes s') =
           find (isAttr ''label'' (noteId n) ''iconClass'') (attributes (updateIcon n opts s))"
  shows "updateIcon n opts s' = s'"
proof (cases "truthy_str (o_icon opts)")
  case True
  then obtain icon where "o_icon opts = Some icon" and "icon \<noteq> []"
    by (cases "o_icon opts") simp_all
  with assms show ?thesis
    by (simp add: updateIcon_def setLabel_def setAttribute_fixed)
next
  case False
  with assms show ?thesis
    by (cases "o_icon opts") (simp_all add: updateIcon_def removeLabel_fixed)
qed


text \<open>
  The body as the sequence of its blocks, and the body run twice: the second run finds
  the note, the title, the parent, the relation and the labels as the first left them.
\<close>

lemma upsertLauncher_steps:
  assumes "ty \<in> set [''note'', ''script'', ''customWidget'']"
  obtains found s1 n s2 nm v where
    "findOrCreateLauncher (''al_'' @ oid)
       (if o_isVisible opts then ''_lbVisibleLaunchers'' else ''_lbAvailableLaunchers'') ty s =
       (found, s1)"
    and "updateTitle t found s1 = (n, s2)"
    and "\<forall>s'. updateRelation ty n opts s' = Inr (setAttribute ''relation'' (noteId n) nm v s')"
    and "upsertLauncher oid ty t opts s =
           (Inr n,
            updateIcon n opts
              (updateKeyboardShortcut n opts
                 (setAttribute ''relation'' (noteId n) nm v
                    (updateParent n
                       (if o_isVisible opts then ''_lbVisibleLaunchers''
                        else ''_lbAvailableLaunchers'') s2))))"
proof -
  let ?p = "if o_isVisible opts then ''_lbVisibleLaunchers'' else ''_lbAvailableLaunchers''"
  obtain found s1 where f: "findOrCreateLauncher (''al_'' @ oid) ?p ty s = (found, s1)"
    by (cases "findOrCreateLauncher (''al_'' @ oid) ?p ty s") blast
  obtain n s2 where u: "updateTitle t found s1 = (n, s2)"
    by (cases "updateTitle t found s1") blast
  from updateRelation_valid [OF assms, of n opts]
  obtain nm v where r: "\<forall>s'. updateRelation ty n opts s' =
                          Inr (setAttribute ''relation'' (noteId n) nm v s')"
    by blast
  have "upsertLauncher oid ty t opts s =
           (Inr n,
            updateIcon n opts
              (updateKeyboardShortcut n opts
                 (setAttribute ''relation'' (noteId n) nm v (updateParent n ?p s2))))"
    using f u r by (simp add: upsertLauncher_def Let_def)
  with f u r show ?thesis
    by (rule that)
qed

lemma upsertLauncher_twice:
  assumes ty: "ty \<in> set [''note'', ''script'', ''customWidget'']"
  shows "\<exists>n. upsertLauncher oid ty t opts s = (Inr n, snd (upsertLauncher oid ty t opts s)) \<and>
             noteId n = ''al_'' @ oid \<and>
             upsertLauncher oid ty t opts (snd (upsertLauncher oid ty t opts s)) =
               (Inr n, snd (upsertLauncher oid ty t opts s))"
proof -
  let ?nid = "''al_'' @ oid"
  let ?p = "if o_isVisible opts then ''_lbVisibleLaunchers'' else ''_lbAvailableLaunchers''"
  from upsertLauncher_steps [OF ty, of oid opts s t]
  obtain found s1 n s2 nm v where
    f: "findOrCreateLauncher ?nid ?p ty s = (found, s1)"
    and u: "updateTitle t found s1 = (n, s2)"
    and r: "\<forall>s'. updateRelation ty n opts s' = Inr (setAttribute ''relation'' (noteId n) nm v s')"
    and first: "upsertLauncher oid ty t opts s =
           (Inr n,
            updateIcon n opts
              (updateKeyboardShortcut n opts
                 (setAttribute ''relation'' (noteId n) nm v (updateParent n ?p s2))))"
    by blast
  define s3 where "s3 = updateParent n ?p s2"
  define s4 where "s4 = setAttribute ''relation'' (noteId n) nm v s3"
  define s5 where "s5 = updateKeyboardShortcut n opts s4"
  define s6 where "s6 = updateIcon n opts s5"
  from first have result: "upsertLauncher oid ty t opts s = (Inr n, s6)"
    by (simp add: s6_def s5_def s4_def s3_def)
  from f have found: "getNote s1 ?nid = Some found"
    by (rule findOrCreateLauncher_note)
  note n = updateTitle_note [OF found u]
  have same_notes: "becca_notes s6 = becca_notes s2"
    by (simp add: s6_def s5_def s4_def s3_def updateIcon_frame updateKeyboardShortcut_frame
          setAttribute_frame updateParent_frame)
  have brs: "branches s6 = branches (updateParent n ?p s2)"
    by (simp add: s6_def s5_def s4_def s3_def updateIcon_frame updateKeyboardShortcut_frame
          setAttribute_frame)
  from n(1) same_notes have "getNote s6 ?nid = Some n"
    by (simp add: getNote_def)
  then have f': "findOrCreateLauncher ?nid ?p ty s6 = (n, s6)"
    by (rule findOrCreateLauncher_found)
  from n(2) have u': "updateTitle t n s6 = (n, s6)"
    by (rule updateTitle_same)
  from brs have p': "updateParent n ?p s6 = s6"
    by (rule updateParent_fixed)
  have "find (isAttr ''relation'' (noteId n) nm) (attributes s6) =
        find (isAttr ''relation'' (noteId n) nm) (attributes s4)"
    by (simp add: s6_def s5_def updateIcon_find_other updateKeyboardShortcut_find_other)
  then have r': "setAttribute ''relation'' (noteId n) nm v s6 = s6"
    unfolding s4_def by (rule setAttribute_fixed)
  have "find (isAttr ''label'' (noteId n) ''keyboardShortcut'') (attributes s6) =
        find (isAttr ''label'' (noteId n) ''keyboardShortcut'') (attributes s5)"
    by (simp add: s6_def updateIcon_find_other)
  then have k': "updateKeyboardShortcut n opts s6 = s6"
    unfolding s5_def by (rule updateKeyboardShortcut_fixed)
  have i': "updateIcon n opts s6 = s6"
    unfolding s6_def by (rule updateIcon_fixed) simp
  have second: "upsertLauncher oid ty t opts s6 = (Inr n, s6)"
    using f' u' p' r r' k' i' by (simp add: upsertLauncher_def Let_def)
  from result second n(3) show ?thesis
    by simp
qed

lemma find_None_filter: "find P xs = None \<Longrightarrow> filter P xs = []"
  by (induction xs) (auto split: if_splits)

text \<open>
  The labels after one run of the body: the first shortcut label of the note holds the
  shortcut given, and the note has no shortcut label when none is given; the same for
  the icon and the label \<open>iconClass\<close>.
\<close>

lemma upsertLauncher_labels:
  assumes ty: "ty \<in> set [''note'', ''script'', ''customWidget'']"
  shows "(if truthy_str (o_keyboardShortcut opts)
          then \<exists>a. find (isAttr ''label'' (''al_'' @ oid) ''keyboardShortcut'')
                      (attributes (snd (upsertLauncher oid ty t opts s))) = Some a \<and>
                    a_value a = o_keyboardShortcut opts
          else find (isAttr ''label'' (''al_'' @ oid) ''keyboardShortcut'')
                 (attributes (snd (upsertLauncher oid ty t opts s))) = None) \<and>
         (if truthy_str (o_icon opts)
          then \<exists>a. find (isAttr ''label'' (''al_'' @ oid) ''iconClass'')
                      (attributes (snd (upsertLauncher oid ty t opts s))) = Some a \<and>
                    a_value a = map_option (\<lambda>icon. ''bx '' @ icon) (o_icon opts)
          else find (isAttr ''label'' (''al_'' @ oid) ''iconClass'')
                 (attributes (snd (upsertLauncher oid ty t opts s))) = None)"
proof -
  let ?nid = "''al_'' @ oid"
  let ?p = "if o_isVisible opts then ''_lbVisibleLaunchers'' else ''_lbAvailableLaunchers''"
  from upsertLauncher_steps [OF ty, of oid opts s t]
  obtain found s1 n s2 nm v where
    f: "findOrCreateLauncher ?nid ?p ty s = (found, s1)"
    and u: "updateTitle t found s1 = (n, s2)"
    and r: "\<forall>s'. updateRelation ty n opts s' = Inr (setAttribute ''relation'' (noteId n) nm v s')"
    and first: "upsertLauncher oid ty t opts s =
           (Inr n,
            updateIcon n opts
              (updateKeyboardShortcut n opts
                 (setAttribute ''relation'' (noteId n) nm v (updateParent n ?p s2))))"
    by blast
  define s4 where "s4 = setAttribute ''relation'' (noteId n) nm v (updateParent n ?p s2)"
  define s5 where "s5 = updateKeyboardShortcut n opts s4"
  from f have "getNote s1 ?nid = Some found"
    by (rule findOrCreateLauncher_note)
  from updateTitle_note(3) [OF this u] have nid: "?nid = noteId n"
    by (rule sym)
  from first have s': "snd (upsertLauncher oid ty t opts s) = updateIcon n opts s5"
    by (simp add: s4_def s5_def)
  have "find (isAttr ''label'' (noteId n) ''keyboardShortcut'') (attributes (updateIcon n opts s5)) =
        find (isAttr ''label'' (noteId n) ''keyboardShortcut'') (attributes s5)"
    by (simp add: updateIcon_find_other)
  with updateKeyboardShortcut_set [of opts n s4] updateKeyboardShortcut_removed [of opts n s4]
  have shortcut: "if truthy_str (o_keyboardShortcut opts)
          then \<exists>a. find (isAttr ''label'' (noteId n) ''keyboardShortcut'')
                      (attributes (updateIcon n opts s5)) = Some a \<and>
                    a_value a = o_keyboardShortcut opts
          else find (isAttr ''label'' (noteId n) ''keyboardShortcut'')
                 (attributes (updateIcon n opts s5)) = None"
    by (simp add: s5_def)
  have icon: "if truthy_str (o_icon opts)
          then \<exists>a. find (isAttr ''label'' (noteId n) ''iconClass'')
                      (attributes (updateIcon n opts s5)) = Some a \<and>
                    a_value a = map_option (\<lambda>icon. ''bx '' @ icon) (o_icon opts)
          else find (isAttr ''label'' (noteId n) ''iconClass'')
                 (attributes (updateIcon n opts s5)) = None"
  proof (cases "truthy_str (o_icon opts)")
    case True
    then obtain icon where i: "o_icon opts = Some icon" "icon \<noteq> []"
      by (cases "o_icon opts") simp_all
    from updateIcon_set [OF i, of n s5] True i show ?thesis
      by simp
  next
    case False
    with updateIcon_removed [OF False, of n s5] show ?thesis
      by simp
  qed
  from shortcut icon show ?thesis
    unfolding s' nid by (rule conjI)
qed

text \<open>
  C5. A call of \<open>createOrUpdateLauncher\<close> with a keyboard shortcut leaves the launcher with
  a \<open>keyboardShortcut\<close> label holding it, and a call for the same id without a shortcut
  (missing or empty) then leaves the launcher with no \<open>keyboardShortcut\<close> label. The same
  holds for the icon and the label \<open>iconClass\<close>. Both calls pass the checks of lines
  465-472; the labels are those the launcher note owns.
\<close>

theorem launcher_labels_by_presence:
  assumes first: "checksPass opts1 oid ty1 t1"
    and second: "checksPass opts2 oid ty2 t2"
  shows "(truthy_str (o_keyboardShortcut opts1) \<and> \<not> truthy_str (o_keyboardShortcut opts2) \<longrightarrow>
            (\<exists>a. find (isAttr ''label'' (''al_'' @ oid) ''keyboardShortcut'')
                    (attributes (snd (createOrUpdateLauncher opts1 s))) = Some a \<and>
                  a_value a = o_keyboardShortcut opts1) \<and>
            filter (isAttr ''label'' (''al_'' @ oid) ''keyboardShortcut'')
              (attributes (snd (createOrUpdateLauncher opts2
                                  (snd (createOrUpdateLauncher opts1 s))))) = []) \<and>
         (truthy_str (o_icon opts1) \<and> \<not> truthy_str (o_icon opts2) \<longrightarrow>
            (\<exists>a. find (isAttr ''label'' (''al_'' @ oid) ''iconClass'')
                    (attributes (snd (createOrUpdateLauncher opts1 s))) = Some a \<and>
                  a_value a = map_option (\<lambda>icon. ''bx '' @ icon) (o_icon opts1)) \<and>
            filter (isAttr ''label'' (''al_'' @ oid) ''iconClass'')
              (attributes (snd (createOrUpdateLauncher opts2
                                  (snd (createOrUpdateLauncher opts1 s))))) = [])"
proof -
  from first have ty1: "ty1 \<in> set [''note'', ''script'', ''customWidget'']"
    unfolding checksPass_def by blast
  from second have ty2: "ty2 \<in> set [''note'', ''script'', ''customWidget'']"
    unfolding checksPass_def by blast
  have eq1: "createOrUpdateLauncher opts1 s' = upsertLauncher oid ty1 t1 opts1 s'" for s'
    using first by (rule createOrUpdateLauncher_valid)
  have eq2: "createOrUpdateLauncher opts2 s' = upsertLauncher oid ty2 t2 opts2 s'" for s'
    using second by (rule createOrUpdateLauncher_valid)
  let ?s1 = "snd (upsertLauncher oid ty1 t1 opts1 s)"
  let ?s2 = "snd (upsertLauncher oid ty2 t2 opts2 ?s1)"
  note after1 = upsertLauncher_labels [OF ty1, of opts1 oid t1 s]
  note after2 = upsertLauncher_labels [OF ty2, of opts2 oid t2 ?s1]
  have shortcut:
    "(\<exists>a. find (isAttr ''label'' (''al_'' @ oid) ''keyboardShortcut'') (attributes ?s1) = Some a \<and>
          a_value a = o_keyboardShortcut opts1) \<and>
     filter (isAttr ''label'' (''al_'' @ oid) ''keyboardShortcut'') (attributes ?s2) = []"
    if "truthy_str (o_keyboardShortcut opts1)" and "\<not> truthy_str (o_keyboardShortcut opts2)"
  proof
    from after1 that(1)
    show "\<exists>a. find (isAttr ''label'' (''al_'' @ oid) ''keyboardShortcut'') (attributes ?s1) = Some a \<and>
              a_value a = o_keyboardShortcut opts1"
      by (simp only: if_True)
    from after2 that(2)
    have "find (isAttr ''label'' (''al_'' @ oid) ''keyboardShortcut'') (attributes ?s2) = None"
      by (simp only: if_False)
    then show "filter (isAttr ''label'' (''al_'' @ oid) ''keyboardShortcut'') (attributes ?s2) = []"
      by (rule find_None_filter)
  qed
  have icon:
    "(\<exists>a. find (isAttr ''label'' (''al_'' @ oid) ''iconClass'') (attributes ?s1) = Some a \<and>
          a_value a = map_option (\<lambda>icon. ''bx '' @ icon) (o_icon opts1)) \<and>
     filter (isAttr ''label'' (''al_'' @ oid) ''iconClass'') (attributes ?s2) = []"
    if "truthy_str (o_icon opts1)" and "\<not> truthy_str (o_icon opts2)"
  proof
    from after1 that(1)
    show "\<exists>a. find (isAttr ''label'' (''al_'' @ oid) ''iconClass'') (attributes ?s1) = Some a \<and>
              a_value a = map_option (\<lambda>icon. ''bx '' @ icon) (o_icon opts1)"
      by (simp only: if_True)
    from after2 that(2)
    have "find (isAttr ''label'' (''al_'' @ oid) ''iconClass'') (attributes ?s2) = None"
      by (simp only: if_False)
    then show "filter (isAttr ''label'' (''al_'' @ oid) ''iconClass'') (attributes ?s2) = []"
      by (rule find_None_filter)
  qed
  from shortcut icon show ?thesis
    unfolding eq1 eq2 by blast
qed

theorem launcher_labels_by_presence_witness:
  "checksPass sampleLauncher ''clock1'' ''script'' ''Clock'' \<and>
   checksPass (sampleLauncher\<lparr>o_icon := None, o_keyboardShortcut := None\<rparr>)
     ''clock1'' ''script'' ''Clock'' \<and>
   (\<exists>a. find (isAttr ''label'' ''al_clock1'' ''keyboardShortcut'')
           (attributes (snd (createOrUpdateLauncher sampleLauncher sampleBecca))) = Some a \<and>
         a_value a = Some ''ctrl+e'') \<and>
   filter (isAttr ''label'' ''al_clock1'' ''keyboardShortcut'')
     (attributes
        (snd (createOrUpdateLauncher (sampleLauncher\<lparr>o_icon := None, o_keyboardShortcut := None\<rparr>)
                (snd (createOrUpdateLauncher sampleLauncher sampleBecca))))) = [] \<and>
   (\<exists>a. find (isAttr ''label'' ''al_clock1'' ''iconClass'')
           (attributes (snd (createOrUpdateLauncher sampleLauncher sampleBecca))) = Some a \<and>
         a_value a = Some ''bx bx-time'') \<and>
   filter (isAttr ''label'' ''al_clock1'' ''iconClass'')
     (attributes
        (snd (createOrUpdateLauncher (sampleLauncher\<lparr>o_icon := None, o_keyboardShortcut := None\<rparr>)
                (snd (createOrUpdateLauncher sampleLauncher sampleBecca))))) = []"
proof -
  let ?omitted = "sampleLauncher\<lparr>o_icon := None, o_keyboardShortcut := None\<rparr>"
  have first: "checksPass sampleLauncher ''clock1'' ''script'' ''Clock''"
    by code_simp
  have second: "checksPass ?omitted ''clock1'' ''script'' ''Clock''"
    by code_simp
  have given: "truthy_str (o_keyboardShortcut sampleLauncher)" "truthy_str (o_icon sampleLauncher)"
      "o_keyboardShortcut sampleLauncher = Some ''ctrl+e''" "o_icon sampleLauncher = Some ''bx-time''"
    by (simp_all add: sampleLauncher_def)
  have omitted: "\<not> truthy_str (o_keyboardShortcut ?omitted)" "\<not> truthy_str (o_icon ?omitted)"
    by simp_all
  from launcher_labels_by_presence [OF first second, of sampleBecca] first second given omitted
  show ?thesis
    by simp
qed

text \<open>
  The branches after a run of the body on a launcher that exists: only lines 490-496
  touch them.
\<close>

lemma getParentBranches_cong:
  "branches s' = branches s \<Longrightarrow> getParentBranches s' nid = getParentBranches s nid"
  by (simp add: getParentBranches_def)

lemma upsertLauncher_existing_branches:
  assumes ty: "ty \<in> set [''note'', ''script'', ''customWidget'']"
    and existing: "getNote s (''al_'' @ oid) = Some existing"
  shows "\<exists>n s2. noteId n = ''al_'' @ oid \<and> branches s2 = branches s \<and>
           branches (snd (upsertLauncher oid ty t opts s)) =
             branches (updateParent n
               (if o_isVisible opts then ''_lbVisibleLaunchers'' else ''_lbAvailableLaunchers'') s2)"
proof -
  let ?nid = "''al_'' @ oid"
  let ?p = "if o_isVisible opts then ''_lbVisibleLaunchers'' else ''_lbAvailableLaunchers''"
  from upsertLauncher_steps [OF ty, of oid opts s t]
  obtain found s1 n s2 nm v where
    f: "findOrCreateLauncher ?nid ?p ty s = (found, s1)"
    and u: "updateTitle t found s1 = (n, s2)"
    and r: "\<forall>s'. updateRelation ty n opts s' = Inr (setAttribute ''relation'' (noteId n) nm v s')"
    and first: "upsertLauncher oid ty t opts s =
           (Inr n,
            updateIcon n opts
              (updateKeyboardShortcut n opts
                 (setAttribute ''relation'' (noteId n) nm v (updateParent n ?p s2))))"
    by blast
  from existing have "findOrCreateLauncher ?nid ?p ty s = (existing, s)"
    by (rule findOrCreateLauncher_found)
  with f have s1: "s1 = s" and found: "found = existing"
    by simp_all
  from existing s1 found have "getNote s1 ?nid = Some found"
    by simp
  note n = updateTitle_note [OF this u]
  from first have "branches (snd (upsertLauncher oid ty t opts s)) = branches (updateParent n ?p s2)"
    by (simp add: updateIcon_frame updateKeyboardShortcut_frame setAttribute_frame)
  with n(3) n(4) s1 show ?thesis
    by blast
qed

lemma relocation:
  assumes nid: "noteId n = nid" and same: "branches s2 = branches s"
    and after: "branches s' = branches (updateParent n p s2)"
  shows "if \<exists>b. getParentBranches s nid = [b] \<and> parentNoteId b \<noteq> p
         then \<exists>b. getParentBranches s nid = [b] \<and>
                getParentBranches s' nid = [b\<lparr>parentNoteId := p\<rparr>] \<and>
                map branchId (branches s') = map branchId (branches s) \<and>
                filter (\<lambda>x. b_noteId x \<noteq> nid) (branches s') =
                  filter (\<lambda>x. b_noteId x \<noteq> nid) (branches s)
         else branches s' = branches s"
proof -
  from same have parents: "getParentBranches s2 nid = getParentBranches s nid"
    by (rule getParentBranches_cong)
  show ?thesis
  proof (cases "\<exists>b. getParentBranches s nid = [b] \<and> parentNoteId b \<noteq> p")
    case True
    then obtain b where b: "getParentBranches s nid = [b]" "parentNoteId b \<noteq> p"
      by blast
    from b parents nid have b2: "getParentBranches s2 (noteId n) = [b]"
      by simp
    note moved = updateParent_moves [OF b2 b(2)]
    from after moved(1) same
    have brs: "branches s' = map (\<lambda>x. if x = b then x\<lparr>parentNoteId := p\<rparr> else x) (branches s)"
      by simp
    from after have "getParentBranches s' nid = getParentBranches (updateParent n p s2) nid"
      by (rule getParentBranches_cong)
    with moved(2) nid have one: "getParentBranches s' nid = [b\<lparr>parentNoteId := p\<rparr>]"
      by simp
    from b(1) have "filter (\<lambda>x. b_noteId x = nid) (branches s) = [b]"
      by (simp add: getParentBranches_def)
    from single_parent_branch [OF this]
    have "b_noteId b = nid" "\<forall>x\<in>set (branches s). b_noteId x = nid \<longrightarrow> x = b"
      by simp_all
    from moved_branches [OF this, of p] brs
    have "map branchId (branches s') = map branchId (branches s)"
      and "filter (\<lambda>x. b_noteId x \<noteq> nid) (branches s') =
           filter (\<lambda>x. b_noteId x \<noteq> nid) (branches s)"
      by simp_all
    with b(1) one True show ?thesis
      by simp
  next
    case False
    with parents nid have "\<not> (\<exists>b. getParentBranches s2 (noteId n) = [b] \<and> parentNoteId b \<noteq> p)"
      by simp
    then have "updateParent n p s2 = s2"
      by (rule updateParent_stays)
    with after same have "branches s' = branches s"
      by simp
    with False show ?thesis
      by (simp only: if_False)
  qed
qed

text \<open>
  C8. For a launcher that exists and options that pass the checks: if the launcher has
  exactly one parent branch and that branch is under another parent than the container
  the options ask for, then after the call that branch, with its id and all its other
  fields, is the one parent branch of the launcher and is under the container asked for,
  the branches are the same in number, order and ids, and no branch of another note has
  changed; in every other case (no parent branch, several, or the one already in place)
  the branches are exactly as before.
\<close>

theorem launcher_relocation:
  assumes valid: "checksPass opts oid ty t"
    and existing: "getNote s (''al_'' @ oid) = Some existing"
  shows "if \<exists>b. getParentBranches s (''al_'' @ oid) = [b] \<and>
               parentNoteId b \<noteq>
                 (if o_isVisible opts then ''_lbVisibleLaunchers'' else ''_lbAvailableLaunchers'')
         then \<exists>b. getParentBranches s (''al_'' @ oid) = [b] \<and>
                getParentBranches (snd (createOrUpdateLauncher opts s)) (''al_'' @ oid) =
                  [b\<lparr>parentNoteId :=
                       (if o_isVisible opts then ''_lbVisibleLaunchers''
                        else ''_lbAvailableLaunchers'')\<rparr>] \<and>
                map branchId (branches (snd (createOrUpdateLauncher opts s))) =
                  map branchId (branches s) \<and>
                filter (\<lambda>x. b_noteId x \<noteq> ''al_'' @ oid)
                  (branches (snd (createOrUpdateLauncher opts s))) =
                  filter (\<lambda>x. b_noteId x \<noteq> ''al_'' @ oid) (branches s)
         else branches (snd (createOrUpdateLauncher opts s)) = branches s"
proof -
  from valid have ty: "ty \<in> set [''note'', ''script'', ''customWidget'']"
    unfolding checksPass_def by blast
  have eq: "createOrUpdateLauncher opts s = upsertLauncher oid ty t opts s"
    using valid by (rule createOrUpdateLauncher_valid)
  from upsertLauncher_existing_branches [OF ty existing, of t opts]
  obtain n s2 where "noteId n = ''al_'' @ oid" and "branches s2 = branches s"
    and "branches (snd (createOrUpdateLauncher opts s)) =
         branches (updateParent n
           (if o_isVisible opts then ''_lbVisibleLaunchers'' else ''_lbAvailableLaunchers'') s2)"
    unfolding eq by blast
  then show ?thesis
    by (rule relocation)
qed

theorem launcher_relocation_witness:
  "checksPass sampleLauncher ''clock1'' ''script'' ''Clock'' \<and>
   getNote launcherBecca ''al_clock1'' =
     Some \<lparr>noteId = ''al_clock1'', title = ''Old clock'', ntype = ''launcher'', mime = [],
           content = JString []\<rparr> \<and>
   getParentBranches launcherBecca ''al_clock1'' =
     [\<lparr>branchId = ''available_clock1'', b_noteId = ''al_clock1'',
       parentNoteId = ''_lbAvailableLaunchers'', prefix = []\<rparr>] \<and>
   getParentBranches (snd (createOrUpdateLauncher sampleLauncher launcherBecca)) ''al_clock1'' =
     [\<lparr>branchId = ''available_clock1'', b_noteId = ''al_clock1'',
       parentNoteId = ''_lbVisibleLaunchers'', prefix = []\<rparr>] \<and>
   map branchId (branches (snd (createOrUpdateLauncher sampleLauncher launcherBecca))) =
     map branchId (branches launcherBecca)"
proof -
  have valid: "checksPass sampleLauncher ''clock1'' ''script'' ''Clock''"
    by code_simp
  have existing: "getNote launcherBecca (''al_'' @ ''clock1'') =
     Some \<lparr>noteId = ''al_clock1'', title = ''Old clock'', ntype = ''launcher'', mime = [],
           content = JString []\<rparr>"
    by code_simp
  have parents: "getParentBranches launcherBecca (''al_'' @ ''clock1'') =
     [\<lparr>branchId = ''available_clock1'', b_noteId = ''al_clock1'',
       parentNoteId = ''_lbAvailableLaunchers'', prefix = []\<rparr>]"
    by code_simp
  have visible: "o_isVisible sampleLauncher"
    by (simp add: sampleLauncher_def)
  from launcher_relocation [OF valid existing] valid existing parents visible
  show ?thesis
    by simp
qed

text \<open>
  C1. For options that pass the checks, a call of \<open>createOrUpdateLauncher\<close> returns the
  note with id \<open>al_\<close> followed by the id given, and a second call with the same options on
  the cache the first one left returns the same note and leaves that cache as it is: no
  note, branch or attribute is added or changed.
\<close>

theorem createOrUpdateLauncher_idempotent:
  assumes "checksPass opts oid ty t"
  shows "\<exists>n. noteId n = ''al_'' @ oid \<and>
             createOrUpdateLauncher opts s = (Inr n, snd (createOrUpdateLauncher opts s)) \<and>
             createOrUpdateLauncher opts (snd (createOrUpdateLauncher opts s)) =
               (Inr n, snd (createOrUpdateLauncher opts s))"
proof -
  from assms have ty: "ty \<in> set [''note'', ''script'', ''customWidget'']"
    unfolding checksPass_def by blast
  have eq: "createOrUpdateLauncher opts s' = upsertLauncher oid ty t opts s'" for s'
    using assms by (rule createOrUpdateLauncher_valid)
  from upsertLauncher_twice [OF ty, of oid t opts s] show ?thesis
    unfolding eq by blast
qed

theorem createOrUpdateLauncher_idempotent_witness:
  "checksPass sampleLauncher ''clock1'' ''script'' ''Clock'' \<and>
   (\<exists>n. noteId n = ''al_clock1'' \<and>
        createOrUpdateLauncher sampleLauncher sampleBecca =
          (Inr n, snd (createOrUpdateLauncher sampleLauncher sampleBecca)) \<and>
        createOrUpdateLauncher sampleLauncher
          (snd (createOrUpdateLauncher sampleLauncher sampleBecca)) =
          (Inr n, snd (createOrUpdateLauncher sampleLauncher sampleBecca)))"
proof -
  have valid: "checksPass sampleLauncher ''clock1'' ''script'' ''Clock''"
    by code_simp
  from createOrUpdateLauncher_idempotent [OF valid, of sampleBecca] valid show ?thesis
    by simp
qed

end
